theory Spec2Isabelle
  imports Main "HOL-Library.Word"
begin

unbundle bit_operations_syntax

section \<open>Types and constants of animation.c\<close>

text \<open>
  The firmware's \<open>U8\<close>, \<open>I8\<close> and \<open>U16\<close> are machine integers. \<open>I8\<close> shares the bit
  pattern of \<open>U8\<close>; it is read with \<open>sint\<close> where the C code casts to \<open>(I8)\<close>.
\<close>

type_synonym U8 = "8 word"
type_synonym I8 = "8 word"
type_synonym U16 = "16 word"

text \<open>\<open>LEDS_NUM\<close> is defined in led.h, \<open>RIGHT_LEDS_START\<close> in animation.c.\<close>

definition LEDS_NUM :: nat where
  "LEDS_NUM = 7"

definition RIGHT_LEDS_START :: nat where
  "RIGHT_LEDS_START = 6"

text \<open>
  Modelled from the spec: rgbled.h is missing; the multi-channel LED has four channels
  (the driver reads \<open>gau8RGBLEDs[0..3]\<close>, every catalog entry has four values).
\<close>

definition NUM_RGBLED_COLORS :: nat where
  "NUM_RGBLED_COLORS = 4"

text \<open>
  Modelled from the spec: animation.h, which defines \<open>NUM_ANIMATIONS\<close>, is missing. The
  spec calls it the catalog bound; \<open>gasAnimations\<close> is declared with this size and its
  initialiser in animation.c has eight entries.
\<close>

definition NUM_ANIMATIONS :: nat where
  "NUM_ANIMATIONS = 8"

text \<open>The opcode bits, \<open>E_ANIMATION_OPCODE\<close>.\<close>

definition LOAD :: U8 where "LOAD = 0x00"
definition ADD :: U8 where "ADD = 0x01"
definition RSHIFT :: U8 where "RSHIFT = 0x02"
definition LSHIFT :: U8 where "LSHIFT = 0x04"
definition DIV :: U8 where "DIV = 0x10"
definition USOURCE :: U8 where "USOURCE = 0x20"
definition DSOURCE :: U8 where "DSOURCE = 0x40"
definition REPEAT :: U8 where "REPEAT = 0x80"

lemmas opcode_defs =
  LOAD_def ADD_def RSHIFT_def LSHIFT_def DIV_def USOURCE_def DSOURCE_def REPEAT_def

record S_ANIMATION_INSTRUCTION_NORMAL =
  u16TimingMs :: U16
  au8LEDBrightness :: "U8 list"
  u8AnimationOpcode :: U8
  u8AnimationOperand :: U8

text \<open>
  The C struct for the RGB LED has the same field names; the fields of the second record
  carry the suffix \<open>RGB\<close> to keep the two apart.
\<close>

record S_ANIMATION_INSTRUCTION_RGB =
  u16TimingMsRGB :: U16
  au8RGBLEDBrightness :: "U8 list"
  u8AnimationOpcodeRGB :: U8
  u8AnimationOperandRGB :: U8

record S_ANIMATION =
  u8AnimationLengthNormal :: U8
  psInstructionsNormal :: "S_ANIMATION_INSTRUCTION_NORMAL list"
  u8AnimationLengthRGB :: U8
  psInstructionsRGB :: "S_ANIMATION_INSTRUCTION_RGB list"

text \<open>
  The globals of animation.c, led.c and rgbled.c that the engine reads and writes, and
  \<open>gsPersistentData.u8AnimationIndex\<close>.
\<close>

record globals =
  gu16NormalTimer :: U16
  gu16RGBTimer :: U16
  gu16LastCall :: U16
  u8LastState :: U8
  u8RepetitionCounter :: U8
  u8LastStateRGB :: U8
  u8RepetitionCounterRGB :: U8
  gau8LEDBrightness :: "U8 list"
  gau8RGBLEDs :: "U8 list"
  u8AnimationIndex :: U8

text \<open>
  Reading an array element outside the array is undefined behaviour in C: what the
  firmware reads there depends on the linker's placement. The model stops with
  \<open>OutOfBounds\<close> at such a read.
\<close>

datatype error = OutOfBounds

section \<open>The animation catalog\<close>

definition N :: "U16 \<Rightarrow> U8 list \<Rightarrow> U8 \<Rightarrow> U8 \<Rightarrow> S_ANIMATION_INSTRUCTION_NORMAL" where
  "N t b opc opd =
     \<lparr>u16TimingMs = t, au8LEDBrightness = b, u8AnimationOpcode = opc, u8AnimationOperand = opd\<rparr>"

definition R :: "U16 \<Rightarrow> U8 list \<Rightarrow> U8 \<Rightarrow> U8 \<Rightarrow> S_ANIMATION_INSTRUCTION_RGB" where
  "R t b opc opd =
     \<lparr>u16TimingMsRGB = t, au8RGBLEDBrightness = b, u8AnimationOpcodeRGB = opc,
      u8AnimationOperandRGB = opd\<rparr>"

text \<open>
  Array elements without an initialiser are zero in C: \<open>gasAnimation2\<close> is declared with 13
  elements and initialises 3, \<open>gasAnimation2RGB\<close> with 6 and initialises 3,
  \<open>gasAnimation7RGB\<close> with 6 and initialises 5.
\<close>

definition zero_normal :: S_ANIMATION_INSTRUCTION_NORMAL where
  "zero_normal = N 0 [0, 0, 0, 0, 0, 0, 0] 0 0"

definition zero_rgb :: S_ANIMATION_INSTRUCTION_RGB where
  "zero_rgb = R 0 [0, 0, 0, 0] 0 0"

definition gasKITT :: "S_ANIMATION_INSTRUCTION_NORMAL list" where
  "gasKITT =
   [N 200 [ 0,  0,  0,  0,  0,  0,  0] LOAD 0,
    N 100 [ 5,  0,  0,  0,  0,  0,  0] LOAD 0,
    N 100 [10,  5,  0,  0,  0,  0,  0] LOAD 0,
    N 100 [15, 10,  5,  0,  0,  0,  0] LOAD 0,
    N 100 [10, 15, 10,  5,  0,  0,  0] LOAD 0,
    N 100 [ 5, 10, 15, 10,  5,  0,  0] LOAD 0,
    N 100 [ 0,  5, 10, 15, 10,  5,  0] LOAD 0,
    N 100 [ 0,  0,  5, 10, 15, 10,  5] LOAD 0,
    N 100 [ 0,  0,  5, 10, 10, 15, 10] LOAD 0,
    N 100 [ 0,  0,  0,  5, 10, 10, 15] LOAD 0,
    N 100 [ 0,  0,  0,  0,  5, 10, 10] LOAD 0,
    N 100 [ 0,  0,  0,  0,  0,  5, 10] LOAD 0,
    N 100 [ 0,  0,  0,  0,  0,  0,  5] LOAD 0,
    N 200 [ 0,  0,  0,  0,  0,  0,  0] LOAD 0]"

definition gasKITTRGB :: "S_ANIMATION_INSTRUCTION_RGB list" where
  "gasKITTRGB =
   [R 100 [ 0,  0,  0,  0] LOAD 0,
    R 100 [ 5,  0,  0,  0] (ADD OR REPEAT) 2,
    R 50  [ 0,  5,  0,  0] (ADD OR REPEAT) 2,
    R 50  [ 0,  0,  5,  0] (ADD OR REPEAT) 2,
    R 50  [ 0,  0,  0,  5] (ADD OR REPEAT) 2,
    R 750 [15, 15, 15, 15] LOAD 0]"

definition gasAnimation2 :: "S_ANIMATION_INSTRUCTION_NORMAL list" where
  "gasAnimation2 =
   [N 115 [ 0,  0,  0,  0,  0,  0,  0] LOAD 0,
    N 115 [ 3,  3,  3,  3,  3,  3,  3] (ADD OR REPEAT) 4,
    N 115 [-3, -3, -3, -3, -3, -3, -3] (ADD OR REPEAT) 4]
   @ replicate 10 zero_normal"

definition gasAnimation2RGB :: "S_ANIMATION_INSTRUCTION_RGB list" where
  "gasAnimation2RGB =
   [R 115 [ 0,  0,  0,  0] LOAD 0,
    R 115 [ 3,  3,  3,  3] (ADD OR REPEAT) 4,
    R 115 [-3, -3, -3, -3] (ADD OR REPEAT) 4]
   @ replicate 3 zero_rgb"

definition gasAnimation3 :: "S_ANIMATION_INSTRUCTION_NORMAL list" where
  "gasAnimation3 =
   [N 70 [15, 15, 15, 15, 15, 15, 15] LOAD 0,
    N 70 [-1, -1, -1, -1, -1, -1, -1] (ADD OR REPEAT) 14,
    N 70 [ 0,  0,  0,  0,  0,  0,  0] LOAD 0,
    N 70 [ 1,  1,  1,  1,  1,  1,  1] (ADD OR REPEAT) 14]"

definition gasAnimation3RGB :: "S_ANIMATION_INSTRUCTION_RGB list" where
  "gasAnimation3RGB =
   [R 70 [15, 15,  0,  0] LOAD 0,
    R 70 [-1, -1,  1,  1] (ADD OR REPEAT) 14,
    R 70 [ 0,  0, 15, 15] LOAD 0,
    R 70 [ 1,  1, -1, -1] (ADD OR REPEAT) 14]"

definition gasAnimation4 :: "S_ANIMATION_INSTRUCTION_NORMAL list" where
  "gasAnimation4 =
   [N 125 [ 0,  0,  0,  0,  0,  0,  0] LOAD 0,
    N 125 [ 0,  0,  3,  0,  0,  0,  0] LOAD 0,
    N 125 [ 0,  3,  6,  3,  0,  0,  0] LOAD 0,
    N 125 [ 3,  6,  9,  6,  3,  0,  0] LOAD 0,
    N 125 [ 6,  9, 12,  9,  6,  3,  0] LOAD 0,
    N 125 [ 9, 12, 15, 12,  9,  6,  3] LOAD 0,
    N 125 [12, 15, 15, 15, 12,  9,  6] LOAD 0,
    N 125 [15, 15, 12, 15, 15, 12,  9] LOAD 0,
    N 125 [15, 12,  9, 12, 15, 15, 12] LOAD 0,
    N 125 [12,  9,  6,  9, 12, 15, 15] LOAD 0,
    N 125 [-3, -3, -3, -3, -3, -3, -3] (ADD OR REPEAT) 1,
    N 125 [ 3,  0,  0,  0,  3,  6,  9] LOAD 0,
    N 125 [ 0,  0,  0,  0,  0,  3,  6] LOAD 0,
    N 125 [ 0,  0,  0,  0,  0,  0,  3] LOAD 0]"

definition gasAnimation4RGB :: "S_ANIMATION_INSTRUCTION_RGB list" where
  "gasAnimation4RGB =
   [R 250 [ 0,  0,  0,  0] LOAD 0,
    R 125 [ 0,  0,  3,  0] LOAD 0,
    R 125 [ 0,  3,  6,  0] LOAD 0,
    R 125 [ 3,  3,  3,  2] (ADD OR REPEAT) 2,
    R 125 [12, 15, 15,  8] LOAD 0,
    R 125 [15, 15, 12,  8] LOAD 0,
    R 125 [15, 12,  9,  8] LOAD 0,
    R 125 [-3, -3, -3, -2] (ADD OR REPEAT) 2,
    R 125 [ 3,  0,  0,  0] LOAD 0,
    R 250 [ 0,  0,  0,  0] LOAD 0]"

definition gasAnimation5 :: "S_ANIMATION_INSTRUCTION_NORMAL list" where
  "gasAnimation5 =
   [N 1525 [ 0,  0,  0,  0,  0,  0,  0] LOAD 0,
    N 75   [ 3,  3,  3,  3,  3,  3,  3] (ADD OR REPEAT) 4,
    N 75   [-3, -3, -3, -3, -3, -3, -3] (ADD OR REPEAT) 4,
    N 450  [ 0,  0,  0,  0,  0,  0,  0] LOAD 0]"

definition gasAnimation5RGB :: "S_ANIMATION_INSTRUCTION_RGB list" where
  "gasAnimation5RGB =
   [R 75  [ 0,  0,  0,  0] LOAD 0,
    R 75  [ 3,  0,  0,  0] (ADD OR REPEAT) 4,
    R 75  [-3,  0,  0,  0] (ADD OR REPEAT) 4,
    R 75  [ 0,  3,  0,  0] (ADD OR REPEAT) 4,
    R 75  [ 0, -3,  0,  0] (ADD OR REPEAT) 4,
    R 750 [ 0,  0,  0,  0] LOAD 0,
    R 450 [ 0,  0, 15, 15] LOAD 0]"

definition gasAnimation6 :: "S_ANIMATION_INSTRUCTION_NORMAL list" where
  "gasAnimation6 =
   [N 120 [ 0,  0,  0,  0,  0,  0,  0] LOAD 0,
    N 120 [ 0,  0,  0,  0,  0,  0,  3] LOAD 0,
    N 120 [ 0,  0,  0,  0,  0,  3,  6] LOAD 0,
    N 120 [ 3,  0,  0,  0,  3,  6,  9] LOAD 0,
    N 120 [ 6,  3,  0,  3,  6,  9, 12] LOAD 0,
    N 120 [ 9,  6,  3,  6,  9, 12, 15] LOAD 0,
    N 120 [12,  9,  6,  9, 12, 15, 15] LOAD 0,
    N 120 [15, 12,  9, 12, 15, 15, 15] LOAD 0,
    N 120 [15, 15, 12, 15, 15, 15, 15] LOAD 0,
    N 840 [15, 15, 15, 15, 15, 15, 15] LOAD 0]"

definition gasAnimation6RGB :: "S_ANIMATION_INSTRUCTION_RGB list" where
  "gasAnimation6RGB =
   [R 120 [ 0,  0,  0,  1] LOAD 0,
    R 120 [ 0,  0,  0,  3] LOAD 0,
    R 120 [ 0,  0,  0,  3] LOAD 0,
    R 120 [ 0,  0,  3,  6] LOAD 0,
    R 120 [ 0,  0,  3,  6] LOAD 0,
    R 120 [ 0,  3,  6,  9] LOAD 0,
    R 120 [ 0,  3,  6,  9] LOAD 0,
    R 120 [ 3,  6,  9, 12] LOAD 0,
    R 120 [ 6,  9, 12, 12] LOAD 0,
    R 840 [12, 12, 12, 12] LOAD 0]"

definition gasAnimation7 :: "S_ANIMATION_INSTRUCTION_NORMAL list" where
  "gasAnimation7 =
   [N 220 [15, 10,  5,  0,  0,  5, 10] LOAD 0,
    N 220 [10, 15, 10,  5,  0,  0,  5] LOAD 0,
    N 220 [ 5, 10, 15, 10,  5,  0,  0] LOAD 0,
    N 220 [ 0,  5, 10, 15, 10,  5,  0] LOAD 0,
    N 220 [ 0,  0,  5, 10, 15, 10,  5] LOAD 0,
    N 220 [ 5,  0,  0,  5, 10, 15, 10] LOAD 0,
    N 110 [10,  5,  0,  0,  5, 10, 15] LOAD 0]"

definition gasAnimation7RGB :: "S_ANIMATION_INSTRUCTION_RGB list" where
  "gasAnimation7RGB =
   [R 110 [15,  0,  0, 15] LOAD 0,
    R 110 [ 0,  5,  0, -5] (ADD OR REPEAT) 2,
    R 110 [-5,  0,  5,  0] (ADD OR REPEAT) 2,
    R 110 [ 0, -5,  0,  5] (ADD OR REPEAT) 2,
    R 110 [ 5,  0, -5,  0] (ADD OR REPEAT) 2]
   @ replicate 1 zero_rgb"

definition gasBlackness :: "S_ANIMATION_INSTRUCTION_NORMAL list" where
  "gasBlackness = [N 0xFFFF [0, 0, 0, 0, 0, 0, 0] LOAD 0]"

definition gasBlacknessRGB :: "S_ANIMATION_INSTRUCTION_RGB list" where
  "gasBlacknessRGB = [R 0xFFFF [0, 0, 0, 0] LOAD 0]"

text \<open>
  The last entry of \<open>gasAnimations\<close> passes \<open>gasBlackness\<close>, an array of the normal
  instruction type, as its RGB instruction pointer, with the length of \<open>gasBlacknessRGB\<close>
  (one element). Read through the RGB struct (fields packed in declaration order: two
  bytes of timing, four of brightness, opcode, operand), the first eight bytes of a normal
  instruction give: the same timing, the first four brightness bytes, the fifth
  brightness byte as opcode and the sixth as operand.
\<close>

definition normal_read_as_rgb ::
  "S_ANIMATION_INSTRUCTION_NORMAL \<Rightarrow> S_ANIMATION_INSTRUCTION_RGB" where
  "normal_read_as_rgb i =
     R (u16TimingMs i) (take 4 (au8LEDBrightness i)) (au8LEDBrightness i ! 4)
       (au8LEDBrightness i ! 5)"

definition animation ::
  "S_ANIMATION_INSTRUCTION_NORMAL list \<Rightarrow> nat \<Rightarrow> S_ANIMATION_INSTRUCTION_RGB list \<Rightarrow> nat
     \<Rightarrow> S_ANIMATION" where
  "animation ns ln rs lr =
     \<lparr>u8AnimationLengthNormal = of_nat ln, psInstructionsNormal = ns,
      u8AnimationLengthRGB = of_nat lr, psInstructionsRGB = rs\<rparr>"

text \<open>
  The lengths are \<open>sizeof(array)/sizeof(element)\<close> in the source, so the declared sizes.
\<close>

definition gasAnimations :: "S_ANIMATION list" where
  "gasAnimations =
   [animation gasKITT 14 gasKITTRGB 6,
    animation gasAnimation2 13 gasAnimation2RGB 6,
    animation gasAnimation3 4 gasAnimation3RGB 4,
    animation gasAnimation4 14 gasAnimation4RGB 10,
    animation gasAnimation5 4 gasAnimation5RGB 7,
    animation gasAnimation6 10 gasAnimation6RGB 10,
    animation gasAnimation7 7 gasAnimation7RGB 6,
    animation gasBlackness 1 (map normal_read_as_rgb (take 1 gasBlackness)) 1]"

lemmas catalog_defs =
  gasKITT_def gasKITTRGB_def gasAnimation2_def gasAnimation2RGB_def gasAnimation3_def
  gasAnimation3RGB_def gasAnimation4_def gasAnimation4RGB_def gasAnimation5_def
  gasAnimation5RGB_def gasAnimation6_def gasAnimation6RGB_def gasAnimation7_def
  gasAnimation7RGB_def gasBlackness_def gasBlacknessRGB_def zero_normal_def zero_rgb_def
  normal_read_as_rgb_def animation_def N_def R_def

section \<open>SaturateBrightness\<close>

text \<open>
  The C function changes the variable behind the pointer and returns how much it changed
  it (an \<open>I8\<close>). The model returns the pair (return value, new value of the variable).
  In the second test, \<open>(I8)v > 15u\<close>, the value is not negative (the first test failed),
  so the conversion to unsigned that the comparison makes leaves it as it is.
\<close>

definition SaturateBrightness :: "U8 \<Rightarrow> I8 \<times> U8" where
  "SaturateBrightness v =
     (if sint v < 0 then (v, 0)
      else if 15 < sint v then (word_of_int (sint v - 15), 15)
      else (0, v))"

section \<open>The opcodes on a brightness array\<close>

text \<open>\<open>memcpy(dst, src, n)\<close> on arrays of at least \<open>n\<close> bytes.\<close>

definition memcpy :: "U8 list \<Rightarrow> U8 list \<Rightarrow> nat \<Rightarrow> U8 list" where
  "memcpy dst src n = take n src @ drop n dst"

text \<open>One round of the ADD loop: add, then reset to zero above 15.\<close>

definition add_channel :: "U8 list \<Rightarrow> nat \<Rightarrow> U8 list \<Rightarrow> U8 list" where
  "add_channel ops idx b =
     (let b1 = b[idx := b ! idx + ops ! idx]
      in if 15 < b1 ! idx then b1[idx := 0] else b1)"

definition op_ADD :: "nat \<Rightarrow> U8 list \<Rightarrow> U8 list \<Rightarrow> U8 list" where
  "op_ADD n ops b = fold (add_channel ops) [0..<n] b"

definition op_RSHIFT :: "U8 list \<Rightarrow> U8 list" where
  "op_RSHIFT b =
     (let u8Temp = b ! (LEDS_NUM - 1);
          b1 = fold (\<lambda>idx b. b[idx := b ! (idx - 1)]) (rev [1..<LEDS_NUM]) b
      in b1[0 := u8Temp])"

definition op_LSHIFT :: "U8 list \<Rightarrow> U8 list" where
  "op_LSHIFT b =
     (let u8Temp = b ! 0;
          b1 = fold (\<lambda>idx b. b[idx := b ! (idx + 1)]) [0..<LEDS_NUM - 1] b
      in b1[LEDS_NUM - 1 := u8Temp])"

text \<open>
  \<open>gau8LEDBrightness[to] += SaturateBrightness(&gau8LEDBrightness[from])\<close>, for two
  different indices.
\<close>

definition carry :: "nat \<Rightarrow> nat \<Rightarrow> U8 list \<Rightarrow> U8 list" where
  "carry from to b =
     (let (r, v) = SaturateBrightness (b ! from);
          b1 = b[from := v]
      in b1[to := b1 ! to + r])"

text \<open>\<open>gau8LEDBrightness[idx] += i8Change\<close> with \<open>i8Change\<close> read from the operand array.\<close>

definition add_change :: "U8 list \<Rightarrow> nat \<Rightarrow> U8 list \<Rightarrow> U8 list" where
  "add_change ops idx b = b[idx := b ! idx + ops ! idx]"

text \<open>The same, followed by a call of SaturateBrightness whose result is dropped.\<close>

definition add_saturate :: "U8 list \<Rightarrow> nat \<Rightarrow> U8 list \<Rightarrow> U8 list" where
  "add_saturate ops idx b =
     (let b1 = add_change ops idx b in b1[idx := snd (SaturateBrightness (b1 ! idx))])"

definition op_USOURCE :: "U8 list \<Rightarrow> U8 list \<Rightarrow> U8 list" where
  "op_USOURCE ops b =
     (let b1 = fold (\<lambda>idx b.
                  fold (\<lambda>inner. carry inner (inner + 1)) [idx..<RIGHT_LEDS_START - 1]
                    (add_change ops idx b))
                [0..<RIGHT_LEDS_START - 1] b;
          b2 = add_saturate ops (RIGHT_LEDS_START - 1) b1;
          b3 = fold (\<lambda>idx b.
                  fold (\<lambda>inner. carry inner (inner - 1))
                    (rev [RIGHT_LEDS_START + 1..<LEDS_NUM]) (add_change ops idx b))
                (rev [RIGHT_LEDS_START + 1..<LEDS_NUM]) b2
      in add_saturate ops RIGHT_LEDS_START b3)"

definition op_DSOURCE :: "U8 list \<Rightarrow> U8 list \<Rightarrow> U8 list" where
  "op_DSOURCE ops b =
     (let b1 = fold (\<lambda>idx b.
                  fold (\<lambda>inner. carry inner (inner - 1)) (rev [1..<idx + 1])
                    (add_change ops idx b))
                (rev [1..<RIGHT_LEDS_START]) b;
          b2 = add_saturate ops 0 b1;
          b3 = fold (\<lambda>idx b.
                  fold (\<lambda>inner. carry inner (inner + 1)) [RIGHT_LEDS_START..<LEDS_NUM - 1]
                    (add_change ops idx b))
                [RIGHT_LEDS_START..<LEDS_NUM - 1] b2
      in add_saturate ops (LEDS_NUM - 1) b3)"

text \<open>One round of the DIV loop: unsigned division, skipped for a zero operand.\<close>

definition div_channel :: "U8 list \<Rightarrow> nat \<Rightarrow> U8 list \<Rightarrow> U8 list" where
  "div_channel ops idx b =
     (let u8Temp = ops ! idx
      in if u8Temp \<noteq> 0 then b[idx := b ! idx div u8Temp] else b)"

definition op_DIV :: "nat \<Rightarrow> U8 list \<Rightarrow> U8 list \<Rightarrow> U8 list" where
  "op_DIV n ops b = fold (div_channel ops) [0..<n] b"

text \<open>
  The opcodes other than LOAD, in the fixed order of the source, for the normal LEDs and
  for the RGB LED (where the shifts and the source opcodes are not implemented).
\<close>

definition exec_normal :: "S_ANIMATION_INSTRUCTION_NORMAL \<Rightarrow> U8 list \<Rightarrow> U8 list" where
  "exec_normal ins b =
     (let u8OpCode = u8AnimationOpcode ins;
          ops = au8LEDBrightness ins;
          b1 = (if ADD AND u8OpCode \<noteq> 0 then op_ADD LEDS_NUM ops b else b);
          b2 = (if RSHIFT AND u8OpCode \<noteq> 0 then op_RSHIFT b1 else b1);
          b3 = (if LSHIFT AND u8OpCode \<noteq> 0 then op_LSHIFT b2 else b2);
          b4 = (if USOURCE AND u8OpCode \<noteq> 0 then op_USOURCE ops b3 else b3);
          b5 = (if DSOURCE AND u8OpCode \<noteq> 0 then op_DSOURCE ops b4 else b4)
      in if DIV AND u8OpCode \<noteq> 0 then op_DIV LEDS_NUM ops b5 else b5)"

definition exec_rgb :: "S_ANIMATION_INSTRUCTION_RGB \<Rightarrow> U8 list \<Rightarrow> U8 list" where
  "exec_rgb ins b =
     (let u8OpCode = u8AnimationOpcodeRGB ins;
          ops = au8RGBLEDBrightness ins;
          b1 = (if ADD AND u8OpCode \<noteq> 0 then op_ADD NUM_RGBLED_COLORS ops b else b)
      in if DIV AND u8OpCode \<noteq> 0 then op_DIV NUM_RGBLED_COLORS ops b1 else b1)"

section \<open>Animation_Cycle and Animation_Set\<close>

text \<open>
  The body of \<open>if( u8LastState != u8AnimationState )\<close> for the instruction \<open>ins\<close> at index
  \<open>st\<close>: LOAD alone, or the other opcodes followed by the repeat bookkeeping.
\<close>

definition apply_normal :: "S_ANIMATION_INSTRUCTION_NORMAL \<Rightarrow> U8 \<Rightarrow> globals \<Rightarrow> globals" where
  "apply_normal ins st s =
     (let u8OpCode = u8AnimationOpcode ins
      in if LOAD = u8OpCode
         then s\<lparr>gau8LEDBrightness := memcpy (gau8LEDBrightness s) (au8LEDBrightness ins) LEDS_NUM,
                u8LastState := st\<rparr>
         else
           let s1 = s\<lparr>gau8LEDBrightness := exec_normal ins (gau8LEDBrightness s)\<rparr>
           in if REPEAT AND u8OpCode \<noteq> 0
              then
                if 0 = u8RepetitionCounter s1
                then s1\<lparr>u8RepetitionCounter := u8AnimationOperand ins,
                        gu16NormalTimer := gu16NormalTimer s1 - u16TimingMs ins\<rparr>
                else
                  let s2 = s1\<lparr>u8RepetitionCounter := u8RepetitionCounter s1 - 1\<rparr>
                  in if 0 \<noteq> u8RepetitionCounter s2
                     then s2\<lparr>gu16NormalTimer := gu16NormalTimer s2 - u16TimingMs ins\<rparr>
                     else s2\<lparr>u8LastState := st\<rparr>
              else s1\<lparr>u8LastState := st\<rparr>)"

definition apply_rgb :: "S_ANIMATION_INSTRUCTION_RGB \<Rightarrow> U8 \<Rightarrow> globals \<Rightarrow> globals" where
  "apply_rgb ins st s =
     (let u8OpCode = u8AnimationOpcodeRGB ins
      in if LOAD = u8OpCode
         then s\<lparr>gau8RGBLEDs := memcpy (gau8RGBLEDs s) (au8RGBLEDBrightness ins) NUM_RGBLED_COLORS,
                u8LastStateRGB := st\<rparr>
         else
           let s1 = s\<lparr>gau8RGBLEDs := exec_rgb ins (gau8RGBLEDs s)\<rparr>
           in if REPEAT AND u8OpCode \<noteq> 0
              then
                if 0 = u8RepetitionCounterRGB s1
                then s1\<lparr>u8RepetitionCounterRGB := u8AnimationOperandRGB ins,
                        gu16RGBTimer := gu16RGBTimer s1 - u16TimingMsRGB ins\<rparr>
                else
                  let s2 = s1\<lparr>u8RepetitionCounterRGB := u8RepetitionCounterRGB s1 - 1\<rparr>
                  in if 0 \<noteq> u8RepetitionCounterRGB s2
                     then s2\<lparr>gu16RGBTimer := gu16RGBTimer s2 - u16TimingMsRGB ins\<rparr>
                     else s2\<lparr>u8LastStateRGB := st\<rparr>
              else s1\<lparr>u8LastStateRGB := st\<rparr>)"

text \<open>
  The loop that calculates the state of the animation: \<open>ts\<close> are the timings of the
  instruction array, \<open>len\<close> the animation length, \<open>st\<close> the loop variable
  \<open>u8AnimationState\<close> and \<open>acc\<close> the running \<open>u16StateTimer\<close>. The result is the value of
  \<open>u8AnimationState\<close> after the loop: the index at the \<open>break\<close>, or \<open>len\<close>.
\<close>

function calc_state :: "U16 list \<Rightarrow> nat \<Rightarrow> U16 \<Rightarrow> nat \<Rightarrow> U16 \<Rightarrow> error + nat" where
  "calc_state ts len timer st acc =
     (if st < len
      then if st < length ts
           then let acc1 = acc + ts ! st
                in if timer < acc1 then Inr st else calc_state ts len timer (st + 1) acc1
           else Inl OutOfBounds
      else Inr st)"
  by pat_completeness auto
termination
  by (relation "measure (\<lambda>(ts, len, timer, st, acc). len - st)") auto

declare calc_state.simps [simp del]

text \<open>The part of Animation_Cycle for the normal LEDs.\<close>

definition cycle_normal :: "S_ANIMATION \<Rightarrow> globals \<Rightarrow> error + globals" where
  "cycle_normal a s =
     (case calc_state (map u16TimingMs (psInstructionsNormal a))
             (unat (u8AnimationLengthNormal a)) (gu16NormalTimer s) 0 0 of
        Inl e \<Rightarrow> Inl e
      | Inr k \<Rightarrow>
          let (u8AnimationState, s1) =
                (if unat (u8AnimationLengthNormal a) \<le> k
                 then (0, s\<lparr>gu16NormalTimer := 0, gu16RGBTimer := 0\<rparr>)
                 else (k, s))
          in if u8LastState s1 \<noteq> of_nat u8AnimationState
             then if u8AnimationState < length (psInstructionsNormal a)
                  then Inr (apply_normal (psInstructionsNormal a ! u8AnimationState)
                              (of_nat u8AnimationState) s1)
                  else Inl OutOfBounds
             else Inr s1)"

text \<open>The part for the RGB LED; the restart of the animation is commented out there.\<close>

definition cycle_rgb :: "S_ANIMATION \<Rightarrow> globals \<Rightarrow> error + globals" where
  "cycle_rgb a s =
     (case calc_state (map u16TimingMsRGB (psInstructionsRGB a))
             (unat (u8AnimationLengthRGB a)) (gu16RGBTimer s) 0 0 of
        Inl e \<Rightarrow> Inl e
      | Inr u8AnimationState \<Rightarrow>
          if u8LastStateRGB s \<noteq> of_nat u8AnimationState
          then if u8AnimationState < length (psInstructionsRGB a)
               then Inr (apply_rgb (psInstructionsRGB a ! u8AnimationState)
                           (of_nat u8AnimationState) s)
               else Inl OutOfBounds
          else Inr s)"

text \<open>\<open>u16TimeNow\<close> is the value that \<open>Util_GetTimerMs()\<close> returns in the call.\<close>

definition Animation_Cycle :: "U16 \<Rightarrow> globals \<Rightarrow> error + globals" where
  "Animation_Cycle u16TimeNow s =
     (if u16TimeNow \<noteq> gu16LastCall s
      then
        let s1 = s\<lparr>gu16NormalTimer := gu16NormalTimer s + (u16TimeNow - gu16LastCall s),
                   gu16RGBTimer := gu16RGBTimer s + (u16TimeNow - gu16LastCall s)\<rparr>;
            s2 = (if NUM_ANIMATIONS \<le> unat (u8AnimationIndex s1)
                  then s1\<lparr>u8AnimationIndex := 0\<rparr> else s1);
            a = gasAnimations ! unat (u8AnimationIndex s2)
        in case cycle_normal a s2 of
             Inl e \<Rightarrow> Inl e
           | Inr s3 \<Rightarrow>
               (case cycle_rgb a s3 of
                  Inl e \<Rightarrow> Inl e
                | Inr s4 \<Rightarrow> Inr (s4\<lparr>gu16LastCall := u16TimeNow\<rparr>))
      else Inr s)"

definition Animation_Set :: "U8 \<Rightarrow> globals \<Rightarrow> globals" where
  "Animation_Set idx s =
     (if unat idx < NUM_ANIMATIONS
      then s\<lparr>u8AnimationIndex := idx, gu16NormalTimer := 0, gu16RGBTimer := 0,
             u8LastState := 0xFF, u8RepetitionCounter := 0, u8LastStateRGB := 0xFF,
             u8RepetitionCounterRGB := 0\<rparr>
      else s)"

text \<open>
  The state after the init block of the firmware: the static initialisers of animation.c,
  \<open>Animation_Init\<close> (with \<open>now\<close> the value of the millisecond timer), \<open>LED_Init\<close> and
  \<open>RGBLED_Init\<close> (which zero the brightness arrays), and the persisted animation index.
\<close>

definition init_globals :: "U16 \<Rightarrow> U8 \<Rightarrow> globals" where
  "init_globals now idx =
     \<lparr>gu16NormalTimer = 0, gu16RGBTimer = 0, gu16LastCall = now,
      u8LastState = 0xFF, u8RepetitionCounter = 0, u8LastStateRGB = 0xFF,
      u8RepetitionCounterRGB = 0,
      gau8LEDBrightness = replicate LEDS_NUM 0, gau8RGBLEDs = replicate NUM_RGBLED_COLORS 0,
      u8AnimationIndex = idx\<rparr>"

text \<open>The calls the main cycle makes, and a run of them that stops at the first fault.\<close>

datatype call = Cycle U16 | Select U8

fun run :: "call list \<Rightarrow> globals \<Rightarrow> error + globals" where
  "run [] s = Inr s"
| "run (Cycle now # cs) s =
     (case Animation_Cycle now s of Inl e \<Rightarrow> Inl e | Inr s1 \<Rightarrow> run cs s1)"
| "run (Select idx # cs) s = run cs (Animation_Set idx s)"

section \<open>The range of the brightness arrays\<close>

text \<open>
  \<open>in_range n b\<close>: the array has \<open>n\<close> elements, each in \<open>[0, 15]\<close>. An instruction of the
  catalog is accepted when its array has the right length and, for LOAD, is in range.
\<close>

definition in_range :: "nat \<Rightarrow> U8 list \<Rightarrow> bool" where
  "in_range n b \<longleftrightarrow> length b = n \<and> list_all (\<lambda>x. 0 \<le> uint x \<and> uint x \<le> 15) b"

definition brightness_ok :: "globals \<Rightarrow> bool" where
  "brightness_ok s \<longleftrightarrow>
     in_range LEDS_NUM (gau8LEDBrightness s) \<and> in_range NUM_RGBLED_COLORS (gau8RGBLEDs s)"

definition normal_ok :: "S_ANIMATION_INSTRUCTION_NORMAL \<Rightarrow> bool" where
  "normal_ok ins \<longleftrightarrow>
     length (au8LEDBrightness ins) = LEDS_NUM \<and>
     (LOAD = u8AnimationOpcode ins \<longrightarrow> in_range LEDS_NUM (au8LEDBrightness ins))"

definition rgb_ok :: "S_ANIMATION_INSTRUCTION_RGB \<Rightarrow> bool" where
  "rgb_ok ins \<longleftrightarrow>
     length (au8RGBLEDBrightness ins) = NUM_RGBLED_COLORS \<and>
     (LOAD = u8AnimationOpcodeRGB ins \<longrightarrow> in_range NUM_RGBLED_COLORS (au8RGBLEDBrightness ins))"

definition animation_ok :: "S_ANIMATION \<Rightarrow> bool" where
  "animation_ok a \<longleftrightarrow>
     list_all normal_ok (psInstructionsNormal a) \<and> list_all rgb_ok (psInstructionsRGB a)"

text \<open>
  The lengths stored in an animation are the lengths of its arrays, and the animation
  has at least one instruction for the normal LEDs.
\<close>

definition lengths_ok :: "S_ANIMATION \<Rightarrow> bool" where
  "lengths_ok a \<longleftrightarrow>
     unat (u8AnimationLengthNormal a) = length (psInstructionsNormal a) \<and>
     psInstructionsNormal a \<noteq> [] \<and>
     unat (u8AnimationLengthRGB a) = length (psInstructionsRGB a)"

section \<open>SaturateBrightness: range and excess\<close>

lemma sint_u8_cases: "sint (v :: 8 word) = (if uint v < 128 then uint v else uint v - 256)"
proof -
  have b: "uint v < 256" using uint_lt2p [of v] by simp
  have "odd (k div 128) = (128 \<le> k)" if "0 \<le> k" "k < 256" for k :: int
    using that by presburger
  from this [of "uint v"] b have bit7: "bit (uint v) 7 \<longleftrightarrow> 128 \<le> uint v"
    by (simp add: bit_iff_odd)
  have "sint v = signed_take_bit 7 (uint v)" by (simp add: sint_uint)
  also have "\<dots> = take_bit 8 (uint v) - 2 ^ 8 * of_bool (bit (uint v) 7)"
    by (simp add: signed_take_bit_eq_take_bit_minus)
  also have "take_bit 8 (uint v) = uint v"
    using b by (simp add: take_bit_int_eq_self)
  finally show ?thesis using bit7 by simp
qed

lemma sint_of_int_small: "- 128 \<le> k \<Longrightarrow> k < 128 \<Longrightarrow> sint (word_of_int k :: 8 word) = k"
  by (simp add: sint_sbintrunc' signed_take_bit_int_eq_self)

text \<open>
  C10. For every 8-bit value \<open>b\<close>, SaturateBrightness leaves a value \<open>v'\<close> in \<open>[0, 15]\<close> and
  returns a signed excess \<open>r\<close> with \<open>signed b = v' + r\<close>; a value already in \<open>[0, 15]\<close> is kept
  and the excess is then 0.
\<close>

theorem SaturateBrightness_excess:
  "(case SaturateBrightness b of (r, v') \<Rightarrow>
      0 \<le> uint v' \<and> uint v' \<le> 15 \<and> sint b = uint v' + sint r \<and>
      (b \<le> 15 \<longrightarrow> r = 0 \<and> v' = b))"
proof -
  have lt: "uint b < 256" using uint_lt2p [of b] by simp
  have s128: "sint b < 128" using sint_lt [of b] by simp
  have le15: "b \<le> 15 \<longleftrightarrow> uint b \<le> 15" by (simp add: word_le_def)
  show ?thesis
  proof (cases "sint b < 0")
    case True
    then have "\<not> uint b \<le> 15" by (simp add: sint_u8_cases split: if_splits)
    with True show ?thesis by (simp add: SaturateBrightness_def le15)
  next
    case nonneg: False
    with lt have u: "sint b = uint b" by (simp add: sint_u8_cases split: if_splits)
    show ?thesis
    proof (cases "15 < sint b")
      case True
      have "sint (word_of_int (sint b - 15) :: 8 word) = sint b - 15"
        by (rule sint_of_int_small) (use True s128 in simp_all)
      with True nonneg u show ?thesis by (simp add: SaturateBrightness_def le15)
    next
      case False
      with nonneg u show ?thesis by (simp add: SaturateBrightness_def le15)
    qed
  qed
qed

theorem SaturateBrightness_excess_witness:
  "(7 :: U8) \<le> 15 \<and>
   (case SaturateBrightness 7 of (r, v') \<Rightarrow>
      uint v' \<le> 15 \<and> sint (7 :: U8) = uint v' + sint r \<and> r = 0 \<and> v' = 7)"
  using SaturateBrightness_excess [of 7] by simp

section \<open>Evaluation and frame lemmas\<close>

lemmas eval_defs =
  Animation_Cycle_def cycle_normal_def cycle_rgb_def apply_normal_def apply_rgb_def
  exec_normal_def exec_rgb_def op_ADD_def add_channel_def op_DIV_def div_channel_def
  memcpy_def calc_state.simps init_globals_def Animation_Set_def gasAnimations_def
  catalog_defs opcode_defs LEDS_NUM_def NUM_RGBLED_COLORS_def NUM_ANIMATIONS_def
  RIGHT_LEDS_START_def Let_def

lemma apply_normal_frame:
  "u8AnimationIndex (apply_normal ins st s) = u8AnimationIndex s \<and>
   gu16LastCall (apply_normal ins st s) = gu16LastCall s \<and>
   gu16RGBTimer (apply_normal ins st s) = gu16RGBTimer s \<and>
   u8LastStateRGB (apply_normal ins st s) = u8LastStateRGB s \<and>
   u8RepetitionCounterRGB (apply_normal ins st s) = u8RepetitionCounterRGB s \<and>
   gau8RGBLEDs (apply_normal ins st s) = gau8RGBLEDs s"
  by (simp add: apply_normal_def Let_def)

lemma apply_rgb_frame:
  "u8AnimationIndex (apply_rgb ins st s) = u8AnimationIndex s \<and>
   gu16LastCall (apply_rgb ins st s) = gu16LastCall s \<and>
   gu16NormalTimer (apply_rgb ins st s) = gu16NormalTimer s \<and>
   u8LastState (apply_rgb ins st s) = u8LastState s \<and>
   u8RepetitionCounter (apply_rgb ins st s) = u8RepetitionCounter s \<and>
   gau8LEDBrightness (apply_rgb ins st s) = gau8LEDBrightness s"
  by (simp add: apply_rgb_def Let_def)

lemma cycle_normal_frame:
  assumes "cycle_normal a s = Inr s1"
  shows "u8AnimationIndex s1 = u8AnimationIndex s \<and> gu16LastCall s1 = gu16LastCall s \<and>
         u8LastStateRGB s1 = u8LastStateRGB s \<and>
         u8RepetitionCounterRGB s1 = u8RepetitionCounterRGB s \<and>
         gau8RGBLEDs s1 = gau8RGBLEDs s"
  using assms
  by (auto simp: cycle_normal_def apply_normal_frame split: sum.splits if_splits)

lemma cycle_rgb_frame:
  assumes "cycle_rgb a s = Inr s1"
  shows "u8AnimationIndex s1 = u8AnimationIndex s \<and> gu16LastCall s1 = gu16LastCall s \<and>
         gu16NormalTimer s1 = gu16NormalTimer s \<and> u8LastState s1 = u8LastState s \<and>
         u8RepetitionCounter s1 = u8RepetitionCounter s \<and>
         gau8LEDBrightness s1 = gau8LEDBrightness s"
  using assms
  by (auto simp: cycle_rgb_def apply_rgb_frame split: sum.splits if_splits)

lemma Animation_Cycle_LastCall:
  assumes "Animation_Cycle t s = Inr s1"
  shows "gu16LastCall s1 = t"
  using assms
  by (auto simp: Animation_Cycle_def Let_def split: sum.splits if_splits)

section \<open>A call without elapsed time\<close>

text \<open>
  C7. Animation_Cycle called with the time of the last call changes nothing: it returns
  the state it was given, with both brightness arrays, both timers, both last states,
  both repetition counters, the time of the last call and the animation index. So a
  second call with the same time as the call before it returns the state of the first.
\<close>

theorem Animation_Cycle_stationary:
  "Animation_Cycle (gu16LastCall s) s = Inr s \<and>
   (\<forall>s1. Animation_Cycle t s = Inr s1 \<longrightarrow> Animation_Cycle t s1 = Inr s1)"
proof -
  have stay: "Animation_Cycle (gu16LastCall x) x = Inr x" for x
    by (simp add: Animation_Cycle_def)
  have "Animation_Cycle t s1 = Inr s1" if "Animation_Cycle t s = Inr s1" for s1
    using stay [of s1] Animation_Cycle_LastCall [OF that] by simp
  with stay show ?thesis by blast
qed

theorem Animation_Cycle_stationary_witness:
  "Animation_Cycle 1 (init_globals 0 0) =
     Inr \<lparr>gu16NormalTimer = 1, gu16RGBTimer = 1, gu16LastCall = 1, u8LastState = 0,
          u8RepetitionCounter = 0, u8LastStateRGB = 0, u8RepetitionCounterRGB = 0,
          gau8LEDBrightness = [0, 0, 0, 0, 0, 0, 0], gau8RGBLEDs = [0, 0, 0, 0],
          u8AnimationIndex = 0\<rparr> \<and>
   Animation_Cycle 1
     \<lparr>gu16NormalTimer = 1, gu16RGBTimer = 1, gu16LastCall = 1, u8LastState = 0,
      u8RepetitionCounter = 0, u8LastStateRGB = 0, u8RepetitionCounterRGB = 0,
      gau8LEDBrightness = [0, 0, 0, 0, 0, 0, 0], gau8RGBLEDs = [0, 0, 0, 0],
      u8AnimationIndex = 0\<rparr> =
     Inr \<lparr>gu16NormalTimer = 1, gu16RGBTimer = 1, gu16LastCall = 1, u8LastState = 0,
          u8RepetitionCounter = 0, u8LastStateRGB = 0, u8RepetitionCounterRGB = 0,
          gau8LEDBrightness = [0, 0, 0, 0, 0, 0, 0], gau8RGBLEDs = [0, 0, 0, 0],
          u8AnimationIndex = 0\<rparr>"
proof -
  have first: "Animation_Cycle 1 (init_globals 0 0) =
     Inr \<lparr>gu16NormalTimer = 1, gu16RGBTimer = 1, gu16LastCall = 1, u8LastState = 0,
          u8RepetitionCounter = 0, u8LastStateRGB = 0, u8RepetitionCounterRGB = 0,
          gau8LEDBrightness = [0, 0, 0, 0, 0, 0, 0], gau8RGBLEDs = [0, 0, 0, 0],
          u8AnimationIndex = 0\<rparr>"
    by (simp add: eval_defs)
  from Animation_Cycle_stationary [of "init_globals 0 0" 1] first show ?thesis
    by blast
qed

section \<open>Animation_Set\<close>

text \<open>
  C8. For an index that is not below \<open>NUM_ANIMATIONS\<close>, Animation_Set changes nothing.
  For an index below \<open>NUM_ANIMATIONS\<close>, it stores the index, sets both timers to 0, both
  last states to \<open>0xFF\<close> and both repetition counters to 0, and changes nothing else.
\<close>

theorem Animation_Set_effect:
  "(NUM_ANIMATIONS \<le> unat idx \<longrightarrow> Animation_Set idx s = s) \<and>
   (unat idx < NUM_ANIMATIONS \<longrightarrow>
      Animation_Set idx s =
        s\<lparr>u8AnimationIndex := idx, gu16NormalTimer := 0, gu16RGBTimer := 0,
          u8LastState := 0xFF, u8RepetitionCounter := 0, u8LastStateRGB := 0xFF,
          u8RepetitionCounterRGB := 0\<rparr> \<and>
      u8AnimationIndex (Animation_Set idx s) = idx \<and>
      gu16NormalTimer (Animation_Set idx s) = 0 \<and>
      gu16RGBTimer (Animation_Set idx s) = 0 \<and>
      u8LastState (Animation_Set idx s) = 0xFF \<and>
      u8LastStateRGB (Animation_Set idx s) = 0xFF \<and>
      u8RepetitionCounter (Animation_Set idx s) = 0 \<and>
      u8RepetitionCounterRGB (Animation_Set idx s) = 0)"
  by (simp add: Animation_Set_def)

theorem Animation_Set_effect_witness:
  "NUM_ANIMATIONS \<le> unat (8 :: U8) \<and> Animation_Set 8 (init_globals 5 3) = init_globals 5 3 \<and>
   unat (7 :: U8) < NUM_ANIMATIONS \<and>
   u8AnimationIndex (Animation_Set 7 (init_globals 5 3)) = 7 \<and>
   u8LastState (Animation_Set 7 (init_globals 5 3)) = 0xFF"
  using Animation_Set_effect [of 8 "init_globals 5 3"]
    Animation_Set_effect [of 7 "init_globals 5 3"]
  by (simp add: NUM_ANIMATIONS_def)

section \<open>Who writes the animation index\<close>

text \<open>
  C9, as the claim states it, fails: Animation_Cycle writes the animation index when it
  finds it out of range. Started with the persisted index 200, the first call that sees
  time pass leaves the index 0.
\<close>

theorem Animation_Cycle_index_counterexample:
  "u8AnimationIndex (init_globals 0 200) = 200 \<and>
   Animation_Cycle 1 (init_globals 0 200) =
     Inr \<lparr>gu16NormalTimer = 1, gu16RGBTimer = 1, gu16LastCall = 1, u8LastState = 0,
          u8RepetitionCounter = 0, u8LastStateRGB = 0, u8RepetitionCounterRGB = 0,
          gau8LEDBrightness = [0, 0, 0, 0, 0, 0, 0], gau8RGBLEDs = [0, 0, 0, 0],
          u8AnimationIndex = 0\<rparr>"
  by (simp add: eval_defs)

text \<open>
  C9, amended. Animation_Cycle leaves the animation index as it is, except that a call
  that sees time pass and finds the index not below \<open>NUM_ANIMATIONS\<close> sets it to 0.
  Animation_Set writes the index when its argument is below \<open>NUM_ANIMATIONS\<close> and leaves
  it as it is otherwise.
\<close>

theorem Animation_Cycle_index:
  "(Animation_Cycle now s = Inr s1 \<longrightarrow>
      u8AnimationIndex s1 =
        (if now \<noteq> gu16LastCall s \<and> NUM_ANIMATIONS \<le> unat (u8AnimationIndex s) then 0
         else u8AnimationIndex s)) \<and>
   (NUM_ANIMATIONS \<le> unat idx \<longrightarrow>
      u8AnimationIndex (Animation_Set idx s) = u8AnimationIndex s) \<and>
   (unat idx < NUM_ANIMATIONS \<longrightarrow> u8AnimationIndex (Animation_Set idx s) = idx)"
proof -
  have "u8AnimationIndex s1 =
        (if now \<noteq> gu16LastCall s \<and> NUM_ANIMATIONS \<le> unat (u8AnimationIndex s) then 0
         else u8AnimationIndex s)" if "Animation_Cycle now s = Inr s1"
    using that
    by (auto simp: Animation_Cycle_def Let_def split: sum.splits if_splits
          dest!: cycle_normal_frame cycle_rgb_frame)
  then show ?thesis by (simp add: Animation_Set_def)
qed

theorem Animation_Cycle_index_witness:
  "Animation_Cycle 1 (init_globals 0 3) =
     Inr \<lparr>gu16NormalTimer = 1, gu16RGBTimer = 1, gu16LastCall = 1, u8LastState = 0,
          u8RepetitionCounter = 0, u8LastStateRGB = 0, u8RepetitionCounterRGB = 0,
          gau8LEDBrightness = [0, 0, 0, 0, 0, 0, 0], gau8RGBLEDs = [0, 0, 0, 0],
          u8AnimationIndex = 3\<rparr> \<and>
   NUM_ANIMATIONS \<le> unat (9 :: U8) \<and>
   u8AnimationIndex (Animation_Set 9 (init_globals 0 3)) = 3 \<and>
   unat (2 :: U8) < NUM_ANIMATIONS \<and>
   u8AnimationIndex (Animation_Set 2 (init_globals 0 3)) = 2"
proof -
  have first: "Animation_Cycle 1 (init_globals 0 3) =
     Inr \<lparr>gu16NormalTimer = 1, gu16RGBTimer = 1, gu16LastCall = 1, u8LastState = 0,
          u8RepetitionCounter = 0, u8LastStateRGB = 0, u8RepetitionCounterRGB = 0,
          gau8LEDBrightness = [0, 0, 0, 0, 0, 0, 0], gau8RGBLEDs = [0, 0, 0, 0],
          u8AnimationIndex = 3\<rparr>"
    by (simp add: eval_defs)
  have idx: "u8AnimationIndex (init_globals 0 3) = 3"
    by (simp add: init_globals_def)
  have n: "NUM_ANIMATIONS \<le> unat (9 :: U8)" "unat (2 :: U8) < NUM_ANIMATIONS"
    by (simp_all add: NUM_ANIMATIONS_def)
  from Animation_Cycle_index [of 1 "init_globals 0 3" _ 9]
    Animation_Cycle_index [of 1 "init_globals 0 3" _ 2] first idx n
  show ?thesis by simp
qed

section \<open>The ADD opcode\<close>

lemma add_channel_length [simp]: "length (add_channel ops idx b) = length b"
  by (simp add: add_channel_def Let_def)

lemma add_channel_nth:
  "idx < length b \<Longrightarrow>
   add_channel ops idx b ! j =
     (if j = idx then (if 15 < b ! idx + ops ! idx then 0 else b ! idx + ops ! idx)
      else b ! j)"
  by (simp add: add_channel_def Let_def)

lemma op_ADD_length [simp]: "length (op_ADD n ops b) = length b"
  by (induction n) (simp_all add: op_ADD_def)

lemma op_ADD_Suc: "op_ADD (Suc n) ops b = add_channel ops n (op_ADD n ops b)"
  by (simp add: op_ADD_def)

lemma op_ADD_nth:
  "n \<le> length b \<Longrightarrow>
   op_ADD n ops b ! j =
     (if j < n then (if 15 < b ! j + ops ! j then 0 else b ! j + ops ! j) else b ! j)"
proof (induction n)
  case 0
  then show ?case by (simp add: op_ADD_def)
next
  case (Suc n)
  then have "n < length (op_ADD n ops b)" by simp
  from add_channel_nth [OF this, of ops j] Suc show ?case
    by (auto simp: op_ADD_Suc less_Suc_eq)
qed



section \<open>The end of the timeline of the normal LEDs\<close>

lemma calc_state_exhausted:
  assumes "len \<le> length ts"
    and "unat acc + sum_list (map unat (drop st (take len ts))) \<le> unat timer"
  shows "calc_state ts len timer st acc = Inr (max st len)"
  using assms
proof (induction ts len timer st acc rule: calc_state.induct)
  case (1 ts len timer st acc)
  show ?case
  proof (cases "st < len")
    case False
    then show ?thesis by (simp add: calc_state.simps [of ts len timer st acc] max_def)
  next
    case True
    with "1.prems" have inb: "st < length ts" by simp
    from True inb have d: "drop st (take len ts) = ts ! st # drop (Suc st) (take len ts)"
      by (simp add: Cons_nth_drop_Suc [symmetric])
    with "1.prems" have le: "unat acc + unat (ts ! st) +
        sum_list (map unat (drop (Suc st) (take len ts))) \<le> unat timer"
      by simp
    have "unat timer < 2 ^ 16" using unsigned_less [of timer] by simp
    with le have ua: "unat (acc + ts ! st) = unat acc + unat (ts ! st)"
      by (simp add: unat_word_ariths)
    with le have nb: "\<not> timer < acc + ts ! st"
      by (simp add: word_less_nat_alt)
    have "calc_state ts len timer (st + 1) (acc + ts ! st) = Inr (max (st + 1) len)"
      using True inb nb "1.prems"(1) le ua
      by (intro "1.IH") simp_all
    with True inb nb show ?thesis
      by (simp add: calc_state.simps [of ts len timer st acc] max_def)
  qed
qed

lemma calc_state_bounds:
  assumes "calc_state ts len timer st acc = Inr k"
  shows "st \<le> k \<and> (k < len \<longrightarrow> k < length ts)"
  using assms
proof (induction ts len timer st acc rule: calc_state.induct)
  case (1 ts len timer st acc)
  show ?case
  proof (cases "st < len \<and> st < length ts \<and> \<not> timer < acc + ts ! st")
    case True
    with "1.prems" have "calc_state ts len timer (st + 1) (acc + ts ! st) = Inr k"
      by (simp add: calc_state.simps [of ts len timer st acc])
    with True "1.IH" [of "acc + ts ! st"] show ?thesis by auto
  next
    case False
    with "1.prems" show ?thesis
      by (auto simp: calc_state.simps [of ts len timer st acc] split: if_splits)
  qed
qed

lemma cycle_normal_restart:
  assumes "calc_state (map u16TimingMs (psInstructionsNormal a))
             (unat (u8AnimationLengthNormal a)) (gu16NormalTimer s) 0 0 = Inr k"
    and "unat (u8AnimationLengthNormal a) \<le> k"
  shows "cycle_normal a s =
           (if u8LastState s = 0 then Inr (s\<lparr>gu16NormalTimer := 0, gu16RGBTimer := 0\<rparr>)
            else if psInstructionsNormal a = [] then Inl OutOfBounds
            else Inr (apply_normal (psInstructionsNormal a ! 0) 0
                        (s\<lparr>gu16NormalTimer := 0, gu16RGBTimer := 0\<rparr>)))"
  using assms by (simp add: cycle_normal_def)

lemma apply_normal_timer:
  "gu16NormalTimer (apply_normal ins st s) = gu16NormalTimer s \<or>
   gu16NormalTimer (apply_normal ins st s) = gu16NormalTimer s - u16TimingMs ins"
  by (simp add: apply_normal_def Let_def)

text \<open>
  C3, as the claim states it, fails: the restart zeroes \<open>gu16RGBTimer\<close> too. With
  animation 5 and both timers at 1919 after a call, the call one millisecond later finds
  the normal timeline at its end (the loop leaves \<open>u8AnimationState\<close> at the length, 10);
  the part for the normal LEDs alone leaves \<open>gu16RGBTimer\<close> 0, not 1920, and so does the
  whole call.
\<close>

theorem restart_keeps_RGB_timer_counterexample:
  "run [Cycle 1919] (init_globals 0 5) =
     Inr \<lparr>gu16NormalTimer = 1919, gu16RGBTimer = 1919, gu16LastCall = 1919, u8LastState = 9,
          u8RepetitionCounter = 0, u8LastStateRGB = 9, u8RepetitionCounterRGB = 0,
          gau8LEDBrightness = [15, 15, 15, 15, 15, 15, 15], gau8RGBLEDs = [12, 12, 12, 12],
          u8AnimationIndex = 5\<rparr> \<and>
   calc_state (map u16TimingMs (psInstructionsNormal (gasAnimations ! 5)))
     (unat (u8AnimationLengthNormal (gasAnimations ! 5))) 1920 0 0 = Inr 10 \<and>
   unat (u8AnimationLengthNormal (gasAnimations ! 5)) = 10 \<and>
   cycle_normal (gasAnimations ! 5)
     \<lparr>gu16NormalTimer = 1920, gu16RGBTimer = 1920, gu16LastCall = 1919, u8LastState = 9,
      u8RepetitionCounter = 0, u8LastStateRGB = 9, u8RepetitionCounterRGB = 0,
      gau8LEDBrightness = [15, 15, 15, 15, 15, 15, 15], gau8RGBLEDs = [12, 12, 12, 12],
      u8AnimationIndex = 5\<rparr> =
     Inr \<lparr>gu16NormalTimer = 0, gu16RGBTimer = 0, gu16LastCall = 1919, u8LastState = 0,
          u8RepetitionCounter = 0, u8LastStateRGB = 9, u8RepetitionCounterRGB = 0,
          gau8LEDBrightness = [0, 0, 0, 0, 0, 0, 0], gau8RGBLEDs = [12, 12, 12, 12],
          u8AnimationIndex = 5\<rparr> \<and>
   Animation_Cycle 1920
     \<lparr>gu16NormalTimer = 1919, gu16RGBTimer = 1919, gu16LastCall = 1919, u8LastState = 9,
      u8RepetitionCounter = 0, u8LastStateRGB = 9, u8RepetitionCounterRGB = 0,
      gau8LEDBrightness = [15, 15, 15, 15, 15, 15, 15], gau8RGBLEDs = [12, 12, 12, 12],
      u8AnimationIndex = 5\<rparr> =
     Inr \<lparr>gu16NormalTimer = 0, gu16RGBTimer = 0, gu16LastCall = 1920, u8LastState = 0,
          u8RepetitionCounter = 0, u8LastStateRGB = 0, u8RepetitionCounterRGB = 0,
          gau8LEDBrightness = [0, 0, 0, 0, 0, 0, 0], gau8RGBLEDs = [0, 0, 0, 1],
          u8AnimationIndex = 5\<rparr>"
  by (simp add: eval_defs)

text \<open>
  C3, amended. When the loop for the normal LEDs ends without a \<open>break\<close>, the restart sets
  both \<open>gu16NormalTimer\<close> and \<open>gu16RGBTimer\<close> to 0. After the part of the call for the
  normal LEDs, \<open>gu16RGBTimer\<close> is 0, and \<open>gu16NormalTimer\<close> is 0 or, when instruction 0 is
  applied and steps back in time for a repeat, 0 minus its timing.
\<close>

theorem restart_resets_both_timers:
  assumes "calc_state (map u16TimingMs (psInstructionsNormal a))
             (unat (u8AnimationLengthNormal a)) (gu16NormalTimer s) 0 0 = Inr k"
    and "unat (u8AnimationLengthNormal a) \<le> k"
    and "cycle_normal a s = Inr s1"
  shows "gu16RGBTimer s1 = 0 \<and>
         (gu16NormalTimer s1 = 0 \<or>
          gu16NormalTimer s1 = 0 - u16TimingMs (psInstructionsNormal a ! 0)) \<and>
         s1 = (if u8LastState s = 0 then s\<lparr>gu16NormalTimer := 0, gu16RGBTimer := 0\<rparr>
               else apply_normal (psInstructionsNormal a ! 0) 0
                      (s\<lparr>gu16NormalTimer := 0, gu16RGBTimer := 0\<rparr>))"
proof -
  let ?s0 = "s\<lparr>gu16NormalTimer := 0, gu16RGBTimer := 0\<rparr>"
  let ?i0 = "psInstructionsNormal a ! 0"
  from cycle_normal_restart [OF assms(1,2)] assms(3)
  have s1: "s1 = (if u8LastState s = 0 then ?s0 else apply_normal ?i0 0 ?s0)"
    by (auto split: if_splits)
  moreover have "gu16RGBTimer (apply_normal ?i0 0 ?s0) = 0"
    by (simp add: apply_normal_frame)
  moreover have "gu16NormalTimer (apply_normal ?i0 0 ?s0) = 0 \<or>
      gu16NormalTimer (apply_normal ?i0 0 ?s0) = 0 - u16TimingMs ?i0"
    using apply_normal_timer [of ?i0 0 ?s0] by simp
  ultimately show ?thesis by auto
qed

theorem restart_resets_both_timers_witness:
  "calc_state (map u16TimingMs (psInstructionsNormal (gasAnimations ! 5)))
     (unat (u8AnimationLengthNormal (gasAnimations ! 5))) 1920 0 0 = Inr 10 \<and>
   unat (u8AnimationLengthNormal (gasAnimations ! 5)) \<le> 10 \<and>
   cycle_normal (gasAnimations ! 5)
     \<lparr>gu16NormalTimer = 1920, gu16RGBTimer = 1920, gu16LastCall = 1919, u8LastState = 9,
      u8RepetitionCounter = 0, u8LastStateRGB = 9, u8RepetitionCounterRGB = 0,
      gau8LEDBrightness = [15, 15, 15, 15, 15, 15, 15], gau8RGBLEDs = [12, 12, 12, 12],
      u8AnimationIndex = 5\<rparr> =
     Inr \<lparr>gu16NormalTimer = 0, gu16RGBTimer = 0, gu16LastCall = 1919, u8LastState = 0,
          u8RepetitionCounter = 0, u8LastStateRGB = 9, u8RepetitionCounterRGB = 0,
          gau8LEDBrightness = [0, 0, 0, 0, 0, 0, 0], gau8RGBLEDs = [12, 12, 12, 12],
          u8AnimationIndex = 5\<rparr> \<and>
   gu16RGBTimer
     \<lparr>gu16NormalTimer = 0, gu16RGBTimer = 0, gu16LastCall = 1919, u8LastState = 0,
      u8RepetitionCounter = 0, u8LastStateRGB = 9, u8RepetitionCounterRGB = 0,
      gau8LEDBrightness = [0, 0, 0, 0, 0, 0, 0], gau8RGBLEDs = [12, 12, 12, 12],
      u8AnimationIndex = 5\<rparr> = 0"
proof -
  let ?s = "\<lparr>gu16NormalTimer = 1920, gu16RGBTimer = 1920, gu16LastCall = 1919,
      u8LastState = 9, u8RepetitionCounter = 0, u8LastStateRGB = 9, u8RepetitionCounterRGB = 0,
      gau8LEDBrightness = [15, 15, 15, 15, 15, 15, 15], gau8RGBLEDs = [12, 12, 12, 12],
      u8AnimationIndex = 5\<rparr>"
  have c: "calc_state (map u16TimingMs (psInstructionsNormal (gasAnimations ! 5)))
     (unat (u8AnimationLengthNormal (gasAnimations ! 5))) (gu16NormalTimer ?s) 0 0 = Inr 10"
    by (simp add: eval_defs)
  have l: "unat (u8AnimationLengthNormal (gasAnimations ! 5)) \<le> 10"
    by (simp add: eval_defs)
  have r: "cycle_normal (gasAnimations ! 5) ?s =
     Inr \<lparr>gu16NormalTimer = 0, gu16RGBTimer = 0, gu16LastCall = 1919, u8LastState = 0,
          u8RepetitionCounter = 0, u8LastStateRGB = 9, u8RepetitionCounterRGB = 0,
          gau8LEDBrightness = [0, 0, 0, 0, 0, 0, 0], gau8RGBLEDs = [12, 12, 12, 12],
          u8AnimationIndex = 5\<rparr>"
    by (simp add: eval_defs)
  from restart_resets_both_timers [OF c l r] c l r show ?thesis by (simp add: eval_defs)
qed

text \<open>
  C5, as the claim states it, fails: at the restart, instruction 0 is applied only when
  \<open>u8LastState\<close> is not 0. With animation 2, after calls at 10 ms and 80 ms the last
  state is still 0 (instruction 1 is repeating) and every LED is at 14; a call at 60090
  ms finds the timer, 60020, beyond the sum of the timings, 280, restarts, and leaves the
  LEDs at 14 although instruction 0 loads 15.
\<close>

theorem looping_restart_counterexample:
  "run [Cycle 10, Cycle 80] (init_globals 0 2) =
     Inr \<lparr>gu16NormalTimer = 10, gu16RGBTimer = 10, gu16LastCall = 80, u8LastState = 0,
          u8RepetitionCounter = 14, u8LastStateRGB = 0, u8RepetitionCounterRGB = 14,
          gau8LEDBrightness = [14, 14, 14, 14, 14, 14, 14], gau8RGBLEDs = [14, 14, 1, 1],
          u8AnimationIndex = 2\<rparr> \<and>
   sum_list (map (unat \<circ> u16TimingMs)
     (take (unat (u8AnimationLengthNormal (gasAnimations ! 2)))
        (psInstructionsNormal (gasAnimations ! 2)))) = 280 \<and>
   unat ((10 :: U16) + (60090 - 80)) = 60020 \<and>
   Animation_Cycle 60090
     \<lparr>gu16NormalTimer = 10, gu16RGBTimer = 10, gu16LastCall = 80, u8LastState = 0,
      u8RepetitionCounter = 14, u8LastStateRGB = 0, u8RepetitionCounterRGB = 14,
      gau8LEDBrightness = [14, 14, 14, 14, 14, 14, 14], gau8RGBLEDs = [14, 14, 1, 1],
      u8AnimationIndex = 2\<rparr> =
     Inr \<lparr>gu16NormalTimer = 0, gu16RGBTimer = 0, gu16LastCall = 60090, u8LastState = 0,
          u8RepetitionCounter = 14, u8LastStateRGB = 0, u8RepetitionCounterRGB = 14,
          gau8LEDBrightness = [14, 14, 14, 14, 14, 14, 14], gau8RGBLEDs = [14, 14, 1, 1],
          u8AnimationIndex = 2\<rparr> \<and>
   u8AnimationOpcode (psInstructionsNormal (gasAnimations ! 2) ! 0) = LOAD \<and>
   au8LEDBrightness (psInstructionsNormal (gasAnimations ! 2) ! 0) =
     [15, 15, 15, 15, 15, 15, 15]"
  by (simp add: eval_defs upt_rec)

text \<open>
  C5, amended. For an animation with at least one instruction for the normal LEDs, when
  the timer is beyond the sum of the timings, the part of the call for the normal LEDs
  restarts at instruction 0 with both timers set to 0. If \<open>u8LastState\<close> is not 0 it then
  applies instruction 0, so the brightness array gets the effect of instruction 0; if
  \<open>u8LastState\<close> is 0 it applies nothing and the brightness array stays as it is.
\<close>

theorem looping_restart:
  assumes "unat (u8AnimationLengthNormal a) \<le> length (psInstructionsNormal a)"
    and "psInstructionsNormal a \<noteq> []"
    and "sum_list (map (unat \<circ> u16TimingMs)
           (take (unat (u8AnimationLengthNormal a)) (psInstructionsNormal a)))
         < unat (gu16NormalTimer s)"
  shows "cycle_normal a s =
           Inr (if u8LastState s = 0 then s\<lparr>gu16NormalTimer := 0, gu16RGBTimer := 0\<rparr>
                else apply_normal (psInstructionsNormal a ! 0) 0
                       (s\<lparr>gu16NormalTimer := 0, gu16RGBTimer := 0\<rparr>)) \<and>
         (\<forall>s1. cycle_normal a s = Inr s1 \<longrightarrow>
            gau8LEDBrightness s1 =
              (if u8LastState s = 0 then gau8LEDBrightness s
               else if LOAD = u8AnimationOpcode (psInstructionsNormal a ! 0)
               then memcpy (gau8LEDBrightness s) (au8LEDBrightness (psInstructionsNormal a ! 0))
                      LEDS_NUM
               else exec_normal (psInstructionsNormal a ! 0) (gau8LEDBrightness s)))"
proof -
  let ?ts = "map u16TimingMs (psInstructionsNormal a)"
  let ?len = "unat (u8AnimationLengthNormal a)"
  have "map unat (drop 0 (take ?len ?ts)) =
        map (unat \<circ> u16TimingMs) (take ?len (psInstructionsNormal a))"
    by (simp add: take_map)
  with assms(3) have "unat (0 :: U16) + sum_list (map unat (drop 0 (take ?len ?ts)))
        \<le> unat (gu16NormalTimer s)"
    by simp
  with assms(1) have "calc_state ?ts ?len (gu16NormalTimer s) 0 0 = Inr (max 0 ?len)"
    by (intro calc_state_exhausted) simp_all
  then have c: "calc_state ?ts ?len (gu16NormalTimer s) 0 0 = Inr ?len" by simp
  have r: "cycle_normal a s =
           Inr (if u8LastState s = 0 then s\<lparr>gu16NormalTimer := 0, gu16RGBTimer := 0\<rparr>
                else apply_normal (psInstructionsNormal a ! 0) 0
                       (s\<lparr>gu16NormalTimer := 0, gu16RGBTimer := 0\<rparr>))"
    using cycle_normal_restart [OF c] assms(2) by simp
  then show ?thesis
    by (auto simp: apply_normal_def Let_def)
qed

theorem looping_restart_witness:
  "unat (u8AnimationLengthNormal (gasAnimations ! 5))
     \<le> length (psInstructionsNormal (gasAnimations ! 5)) \<and>
   psInstructionsNormal (gasAnimations ! 5) \<noteq> [] \<and>
   sum_list (map (unat \<circ> u16TimingMs)
     (take (unat (u8AnimationLengthNormal (gasAnimations ! 5)))
        (psInstructionsNormal (gasAnimations ! 5)))) < unat (1921 :: U16) \<and>
   cycle_normal (gasAnimations ! 5)
     \<lparr>gu16NormalTimer = 1921, gu16RGBTimer = 1921, gu16LastCall = 1919, u8LastState = 9,
      u8RepetitionCounter = 0, u8LastStateRGB = 9, u8RepetitionCounterRGB = 0,
      gau8LEDBrightness = [15, 15, 15, 15, 15, 15, 15], gau8RGBLEDs = [12, 12, 12, 12],
      u8AnimationIndex = 5\<rparr> =
     Inr \<lparr>gu16NormalTimer = 0, gu16RGBTimer = 0, gu16LastCall = 1919, u8LastState = 0,
          u8RepetitionCounter = 0, u8LastStateRGB = 9, u8RepetitionCounterRGB = 0,
          gau8LEDBrightness = [0, 0, 0, 0, 0, 0, 0], gau8RGBLEDs = [12, 12, 12, 12],
          u8AnimationIndex = 5\<rparr>"
proof -
  let ?s = "\<lparr>gu16NormalTimer = 1921, gu16RGBTimer = 1921, gu16LastCall = 1919,
      u8LastState = 9, u8RepetitionCounter = 0, u8LastStateRGB = 9, u8RepetitionCounterRGB = 0,
      gau8LEDBrightness = [15, 15, 15, 15, 15, 15, 15], gau8RGBLEDs = [12, 12, 12, 12],
      u8AnimationIndex = 5\<rparr>"
  have l: "unat (u8AnimationLengthNormal (gasAnimations ! 5))
             \<le> length (psInstructionsNormal (gasAnimations ! 5))"
    by (simp add: eval_defs)
  have n: "psInstructionsNormal (gasAnimations ! 5) \<noteq> []"
    by (simp add: eval_defs)
  have t: "sum_list (map (unat \<circ> u16TimingMs)
     (take (unat (u8AnimationLengthNormal (gasAnimations ! 5)))
        (psInstructionsNormal (gasAnimations ! 5)))) < unat (gu16NormalTimer ?s)"
    by (simp add: eval_defs)
  from looping_restart [OF l n t] l n t show ?thesis
    by (simp add: eval_defs)
qed

section \<open>The end of the timeline of the RGB LED\<close>

text \<open>
  When the loop for the RGB LED ends without a \<open>break\<close>, \<open>u8AnimationState\<close> is the length
  of the animation, and nothing brings it back into the array: unless \<open>u8LastStateRGB\<close>
  has this value, the instruction is read one element behind the array.
\<close>

lemma cycle_rgb_exhausted:
  assumes "calc_state (map u16TimingMsRGB (psInstructionsRGB a))
             (unat (u8AnimationLengthRGB a)) (gu16RGBTimer s) 0 0 = Inr k"
    and "unat (u8AnimationLengthRGB a) \<le> k"
    and "length (psInstructionsRGB a) = unat (u8AnimationLengthRGB a)"
  shows "cycle_rgb a s = (if u8LastStateRGB s \<noteq> of_nat k then Inl OutOfBounds else Inr s)"
  using assms by (simp add: cycle_rgb_def)

text \<open>
  C4. The claim says that at the end of the RGB timeline the current instruction is the
  one at index \<open>u8AnimationLengthRGB - 1\<close> and that every read stays in the array. The
  code does not do this. With animation 0, whose RGB timings sum to 1100, the loop leaves
  \<open>u8AnimationState\<close> at 6 for a timer of 1100, the length of the array. After power-on
  at time 0, a call at 1000 ms followed by a call at 1100 ms reads behind the array, and so
  does the 28th of a run of calls made every 54 ms.
\<close>

theorem RGB_exhausted_reads_out_of_bounds:
  "calc_state (map u16TimingMsRGB (psInstructionsRGB (gasAnimations ! 0)))
     (unat (u8AnimationLengthRGB (gasAnimations ! 0))) 1100 0 0 = Inr 6 \<and>
   length (psInstructionsRGB (gasAnimations ! 0)) = 6 \<and>
   run [Cycle 1000] (init_globals 0 0) =
     Inr \<lparr>gu16NormalTimer = 1000, gu16RGBTimer = 1000, gu16LastCall = 1000, u8LastState = 9,
          u8RepetitionCounter = 0, u8LastStateRGB = 5, u8RepetitionCounterRGB = 0,
          gau8LEDBrightness = [0, 0, 0, 5, 10, 10, 15], gau8RGBLEDs = [15, 15, 15, 15],
          u8AnimationIndex = 0\<rparr> \<and>
   run [Cycle 1000, Cycle 1100] (init_globals 0 0) = Inl OutOfBounds \<and>
   run [Cycle 54, Cycle 108, Cycle 162, Cycle 216, Cycle 270, Cycle 324, Cycle 378,
        Cycle 432, Cycle 486, Cycle 540, Cycle 594, Cycle 648, Cycle 702, Cycle 756,
        Cycle 810, Cycle 864, Cycle 918, Cycle 972, Cycle 1026, Cycle 1080, Cycle 1134,
        Cycle 1188, Cycle 1242, Cycle 1296, Cycle 1350, Cycle 1404, Cycle 1458,
        Cycle 1512]
     (init_globals 0 0) = Inl OutOfBounds"
  by (simp add: eval_defs)

section \<open>When Animation_Cycle returns\<close>

lemma calc_state_returns:
  assumes "len \<le> length ts" and "st \<le> len"
  shows "\<exists>k. calc_state ts len timer st acc = Inr k \<and> k \<le> len"
  using assms
proof (induction ts len timer st acc rule: calc_state.induct)
  case (1 ts len timer st acc)
  show ?case
  proof (cases "st < len \<and> \<not> timer < acc + ts ! st")
    case True
    with "1.prems" have "\<exists>k. calc_state ts len timer (st + 1) (acc + ts ! st) = Inr k \<and> k \<le> len"
      by (intro "1.IH") simp_all
    with True "1.prems" show ?thesis
      by (simp add: calc_state.simps [of ts len timer st acc])
  next
    case False
    with "1.prems" show ?thesis
      by (auto simp: calc_state.simps [of ts len timer st acc])
  qed
qed

lemma cycle_normal_returns:
  assumes "lengths_ok a"
  shows "\<exists>s1. cycle_normal a s = Inr s1"
proof -
  from assms have l: "unat (u8AnimationLengthNormal a) \<le> length (map u16TimingMs (psInstructionsNormal a))"
    and n: "0 < length (psInstructionsNormal a)"
    and e: "unat (u8AnimationLengthNormal a) = length (psInstructionsNormal a)"
    by (simp_all add: lengths_ok_def)
  from calc_state_returns [OF l, of 0 "gu16NormalTimer s" 0]
  obtain k where k: "calc_state (map u16TimingMs (psInstructionsNormal a))
      (unat (u8AnimationLengthNormal a)) (gu16NormalTimer s) 0 0 = Inr k"
    and "k \<le> unat (u8AnimationLengthNormal a)"
    by auto
  with n e show ?thesis
    by (auto simp: cycle_normal_def)
qed

lemma cycle_rgb_returns:
  assumes "lengths_ok a"
    and "calc_state (map u16TimingMsRGB (psInstructionsRGB a)) (unat (u8AnimationLengthRGB a))
           (gu16RGBTimer s) 0 0 \<noteq> Inr (unat (u8AnimationLengthRGB a))"
  shows "\<exists>s1. cycle_rgb a s = Inr s1"
proof -
  from assms(1) have l: "unat (u8AnimationLengthRGB a) \<le> length (map u16TimingMsRGB (psInstructionsRGB a))"
    and e: "unat (u8AnimationLengthRGB a) = length (psInstructionsRGB a)"
    by (simp_all add: lengths_ok_def)
  from calc_state_returns [OF l, of 0 "gu16RGBTimer s" 0]
  obtain k where k: "calc_state (map u16TimingMsRGB (psInstructionsRGB a))
      (unat (u8AnimationLengthRGB a)) (gu16RGBTimer s) 0 0 = Inr k"
    and "k \<le> unat (u8AnimationLengthRGB a)"
    by auto
  with assms(2) have "k < length (psInstructionsRGB a)" using e by auto
  with k show ?thesis by (simp add: cycle_rgb_def)
qed

lemma catalog_lengths: "list_all lengths_ok gasAnimations"
  by (simp add: lengths_ok_def gasAnimations_def catalog_defs)

text \<open>
  With the shipped catalog a call of Animation_Cycle fails in exactly one case: time has
  elapsed, the part for the normal LEDs has returned, and the loop for the RGB LED ends
  without a \<open>break\<close> while \<open>u8LastStateRGB\<close> is not the length of the RGB array. The
  read behind the RGB array is the only fault.
\<close>

lemma Animation_Cycle_faults:
  "(\<exists>e. Animation_Cycle now s = Inl e) \<longleftrightarrow>
     now \<noteq> gu16LastCall s \<and>
     (let s1 = s\<lparr>gu16NormalTimer := gu16NormalTimer s + (now - gu16LastCall s),
                  gu16RGBTimer := gu16RGBTimer s + (now - gu16LastCall s)\<rparr>;
          s2 = (if NUM_ANIMATIONS \<le> unat (u8AnimationIndex s1)
                then s1\<lparr>u8AnimationIndex := 0\<rparr> else s1);
          a = gasAnimations ! unat (u8AnimationIndex s2)
      in \<exists>s3. cycle_normal a s2 = Inr s3 \<and>
           calc_state (map u16TimingMsRGB (psInstructionsRGB a))
             (unat (u8AnimationLengthRGB a)) (gu16RGBTimer s3) 0 0
             = Inr (unat (u8AnimationLengthRGB a)) \<and>
           u8LastStateRGB s3 \<noteq> of_nat (unat (u8AnimationLengthRGB a)))"
proof (cases "now = gu16LastCall s")
  case True
  then show ?thesis by (simp add: Animation_Cycle_def)
next
  case False
  define s1 where "s1 = s\<lparr>gu16NormalTimer := gu16NormalTimer s + (now - gu16LastCall s),
                  gu16RGBTimer := gu16RGBTimer s + (now - gu16LastCall s)\<rparr>"
  define s2 where "s2 = (if NUM_ANIMATIONS \<le> unat (u8AnimationIndex s1)
                then s1\<lparr>u8AnimationIndex := 0\<rparr> else s1)"
  define a where "a = gasAnimations ! unat (u8AnimationIndex s2)"
  have c: "Animation_Cycle now s =
           (case cycle_normal a s2 of
              Inl e \<Rightarrow> Inl e
            | Inr s3 \<Rightarrow>
                (case cycle_rgb a s3 of
                   Inl e \<Rightarrow> Inl e
                 | Inr s4 \<Rightarrow> Inr (s4\<lparr>gu16LastCall := now\<rparr>)))"
    using False unfolding a_def s2_def s1_def Animation_Cycle_def Let_def by simp
  have "unat (u8AnimationIndex s2) < NUM_ANIMATIONS"
    by (simp add: s2_def NUM_ANIMATIONS_def)
  then have l: "unat (u8AnimationIndex s2) < length gasAnimations"
    by (simp add: gasAnimations_def NUM_ANIMATIONS_def)
  with catalog_lengths have ok: "lengths_ok a" by (simp add: a_def list_all_length)
  from cycle_normal_returns [OF ok] obtain s3 where 3: "cycle_normal a s2 = Inr s3" by blast
  from ok have e: "length (psInstructionsRGB a) = unat (u8AnimationLengthRGB a)"
    by (simp add: lengths_ok_def)
  have "(\<exists>e. cycle_rgb a s3 = Inl e) \<longleftrightarrow>
          calc_state (map u16TimingMsRGB (psInstructionsRGB a))
             (unat (u8AnimationLengthRGB a)) (gu16RGBTimer s3) 0 0
             = Inr (unat (u8AnimationLengthRGB a)) \<and>
           u8LastStateRGB s3 \<noteq> of_nat (unat (u8AnimationLengthRGB a))"
  proof (cases "calc_state (map u16TimingMsRGB (psInstructionsRGB a))
             (unat (u8AnimationLengthRGB a)) (gu16RGBTimer s3) 0 0
             = Inr (unat (u8AnimationLengthRGB a))")
    case True
    from cycle_rgb_exhausted [OF True order_refl e] True show ?thesis by simp
  next
    case False
    from cycle_rgb_returns [OF ok False] False show ?thesis by auto
  qed
  moreover have "(\<exists>e. Animation_Cycle now s = Inl e) \<longleftrightarrow> (\<exists>e. cycle_rgb a s3 = Inl e)"
    by (simp add: c 3 split: sum.splits)
  ultimately show ?thesis
    using False 3 by (simp add: Let_def s1_def [symmetric] s2_def [symmetric] a_def [symmetric])
qed

section \<open>The REPEAT opcode\<close>

lemma REPEAT_not_LOAD: "REPEAT AND opc \<noteq> 0 \<Longrightarrow> LOAD \<noteq> opc"
  by (auto simp: LOAD_def)

lemma u8_sub_of_nat_ne0: "k < unat (n :: U8) \<Longrightarrow> n - of_nat k \<noteq> 0"
proof
  assume k: "k < unat n" and "n - of_nat k = 0"
  then have "n = of_nat k" by simp
  then have "unat n = k mod 256" by (simp add: unat_of_nat)
  with k show False by simp
qed

text \<open>
  The repeat in a run of whole calls: in animation 0 the RGB instruction 1 adds 5 to the
  first channel with REPEAT 2. It is applied in the calls at 100, 200 and 300 ms, the
  first two of which step \<open>gu16RGBTimer\<close> back to 0.
\<close>

lemma KITT_RGB_repeat_trace:
  "run [Cycle 99, Cycle 100, Cycle 200, Cycle 300] (init_globals 0 0) =
     Inr \<lparr>gu16NormalTimer = 300, gu16RGBTimer = 100, gu16LastCall = 300, u8LastState = 2,
          u8RepetitionCounter = 0, u8LastStateRGB = 1, u8RepetitionCounterRGB = 0,
          gau8LEDBrightness = [10, 5, 0, 0, 0, 0, 0], gau8RGBLEDs = [15, 0, 0, 0],
          u8AnimationIndex = 0\<rparr>"
  by (simp add: eval_defs upt_rec)

text \<open>
  The three ways in which a call applies an instruction with REPEAT. With the counter at 0
  it loads the counter with the operand and steps the timer back by the timing; with the
  counter above 1 it decrements the counter and steps the timer back; with the counter at
  1 it sets the counter to 0 and stores the index in the last state, and the timer stays.
\<close>

lemma apply_normal_first:
  assumes "REPEAT AND u8AnimationOpcode ins \<noteq> 0" and "u8RepetitionCounter s = 0"
  shows "apply_normal ins st s =
           s\<lparr>gau8LEDBrightness := exec_normal ins (gau8LEDBrightness s),
             u8RepetitionCounter := u8AnimationOperand ins,
             gu16NormalTimer := gu16NormalTimer s - u16TimingMs ins\<rparr>"
  using assms REPEAT_not_LOAD [OF assms(1)] by (simp add: apply_normal_def Let_def)

lemma apply_normal_again:
  assumes "REPEAT AND u8AnimationOpcode ins \<noteq> 0" and "u8RepetitionCounter s \<noteq> 0"
    and "u8RepetitionCounter s - 1 \<noteq> 0"
  shows "apply_normal ins st s =
           s\<lparr>gau8LEDBrightness := exec_normal ins (gau8LEDBrightness s),
             u8RepetitionCounter := u8RepetitionCounter s - 1,
             gu16NormalTimer := gu16NormalTimer s - u16TimingMs ins\<rparr>"
  using assms REPEAT_not_LOAD [OF assms(1)] by (simp add: apply_normal_def Let_def)

lemma apply_normal_last:
  assumes "REPEAT AND u8AnimationOpcode ins \<noteq> 0" and "u8RepetitionCounter s = 1"
  shows "apply_normal ins st s =
           s\<lparr>gau8LEDBrightness := exec_normal ins (gau8LEDBrightness s),
             u8RepetitionCounter := 0, u8LastState := st\<rparr>"
  using assms REPEAT_not_LOAD [OF assms(1)] by (simp add: apply_normal_def Let_def)

text \<open>
  A part of Animation_Cycle whose loop stops inside the table applies the instruction at
  that index, unless it is the instruction applied last.
\<close>

lemma cycle_normal_at:
  assumes "calc_state (map u16TimingMs (psInstructionsNormal a))
             (unat (u8AnimationLengthNormal a)) (gu16NormalTimer s) 0 0 = Inr j"
    and "j < unat (u8AnimationLengthNormal a)"
  shows "cycle_normal a s =
           Inr (if u8LastState s \<noteq> of_nat j
                then apply_normal (psInstructionsNormal a ! j) (of_nat j) s else s)"
proof -
  from calc_state_bounds [OF assms(1)] assms(2)
  have "j < length (psInstructionsNormal a)" by simp
  with assms show ?thesis by (simp add: cycle_normal_def)
qed

lemma apply_rgb_first:
  assumes "REPEAT AND u8AnimationOpcodeRGB ins \<noteq> 0" and "u8RepetitionCounterRGB s = 0"
  shows "apply_rgb ins st s =
           s\<lparr>gau8RGBLEDs := exec_rgb ins (gau8RGBLEDs s),
             u8RepetitionCounterRGB := u8AnimationOperandRGB ins,
             gu16RGBTimer := gu16RGBTimer s - u16TimingMsRGB ins\<rparr>"
  using assms REPEAT_not_LOAD [OF assms(1)] by (simp add: apply_rgb_def Let_def)

lemma apply_rgb_again:
  assumes "REPEAT AND u8AnimationOpcodeRGB ins \<noteq> 0" and "u8RepetitionCounterRGB s \<noteq> 0"
    and "u8RepetitionCounterRGB s - 1 \<noteq> 0"
  shows "apply_rgb ins st s =
           s\<lparr>gau8RGBLEDs := exec_rgb ins (gau8RGBLEDs s),
             u8RepetitionCounterRGB := u8RepetitionCounterRGB s - 1,
             gu16RGBTimer := gu16RGBTimer s - u16TimingMsRGB ins\<rparr>"
  using assms REPEAT_not_LOAD [OF assms(1)] by (simp add: apply_rgb_def Let_def)

lemma apply_rgb_last:
  assumes "REPEAT AND u8AnimationOpcodeRGB ins \<noteq> 0" and "u8RepetitionCounterRGB s = 1"
  shows "apply_rgb ins st s =
           s\<lparr>gau8RGBLEDs := exec_rgb ins (gau8RGBLEDs s),
             u8RepetitionCounterRGB := 0, u8LastStateRGB := st\<rparr>"
  using assms REPEAT_not_LOAD [OF assms(1)] by (simp add: apply_rgb_def Let_def)

lemma cycle_rgb_at:
  assumes "calc_state (map u16TimingMsRGB (psInstructionsRGB a))
             (unat (u8AnimationLengthRGB a)) (gu16RGBTimer s) 0 0 = Inr j"
    and "j < unat (u8AnimationLengthRGB a)"
  shows "cycle_rgb a s =
           Inr (if u8LastStateRGB s \<noteq> of_nat j
                then apply_rgb (psInstructionsRGB a ! j) (of_nat j) s else s)"
proof -
  from calc_state_bounds [OF assms(1)] assms(2)
  have "j < length (psInstructionsRGB a)" by simp
  with assms show ?thesis by (simp add: cycle_rgb_def)
qed

lemma Animation_Cycle_unfold:
  assumes "now \<noteq> gu16LastCall s" and "unat (u8AnimationIndex s) < NUM_ANIMATIONS"
  shows "Animation_Cycle now s =
           (case cycle_normal (gasAnimations ! unat (u8AnimationIndex s))
                   (s\<lparr>gu16NormalTimer := gu16NormalTimer s + (now - gu16LastCall s),
                      gu16RGBTimer := gu16RGBTimer s + (now - gu16LastCall s)\<rparr>) of
              Inl e \<Rightarrow> Inl e
            | Inr s3 \<Rightarrow>
                (case cycle_rgb (gasAnimations ! unat (u8AnimationIndex s)) s3 of
                   Inl e \<Rightarrow> Inl e
                 | Inr s4 \<Rightarrow> Inr (s4\<lparr>gu16LastCall := now\<rparr>)))"
  using assms by (simp add: Animation_Cycle_def Let_def cong: sum.case_cong)

text \<open>
  What a returning call leaves in the globals of the normal LEDs, when its loop for the
  normal LEDs stops at index \<open>j\<close>.
\<close>

lemma Animation_Cycle_normal_step:
  assumes "Animation_Cycle now s = Inr s1" and "now \<noteq> gu16LastCall s"
    and "unat (u8AnimationIndex s) < NUM_ANIMATIONS"
    and "calc_state (map u16TimingMs (psInstructionsNormal (gasAnimations ! unat (u8AnimationIndex s))))
           (unat (u8AnimationLengthNormal (gasAnimations ! unat (u8AnimationIndex s))))
           (gu16NormalTimer s + (now - gu16LastCall s)) 0 0 = Inr j"
    and "j < unat (u8AnimationLengthNormal (gasAnimations ! unat (u8AnimationIndex s)))"
  obtains s2 where
    "gu16NormalTimer s2 = gu16NormalTimer s + (now - gu16LastCall s)"
    "u8LastState s2 = u8LastState s" "u8RepetitionCounter s2 = u8RepetitionCounter s"
    "gau8LEDBrightness s2 = gau8LEDBrightness s"
    "gu16NormalTimer s1 = gu16NormalTimer (if u8LastState s2 \<noteq> of_nat j
       then apply_normal (psInstructionsNormal (gasAnimations ! unat (u8AnimationIndex s)) ! j)
              (of_nat j) s2 else s2)"
    "u8LastState s1 = u8LastState (if u8LastState s2 \<noteq> of_nat j
       then apply_normal (psInstructionsNormal (gasAnimations ! unat (u8AnimationIndex s)) ! j)
              (of_nat j) s2 else s2)"
    "u8RepetitionCounter s1 = u8RepetitionCounter (if u8LastState s2 \<noteq> of_nat j
       then apply_normal (psInstructionsNormal (gasAnimations ! unat (u8AnimationIndex s)) ! j)
              (of_nat j) s2 else s2)"
    "gau8LEDBrightness s1 = gau8LEDBrightness (if u8LastState s2 \<noteq> of_nat j
       then apply_normal (psInstructionsNormal (gasAnimations ! unat (u8AnimationIndex s)) ! j)
              (of_nat j) s2 else s2)"
    "gu16LastCall s1 = now" "u8AnimationIndex s1 = u8AnimationIndex s"
proof -
  define a where "a = gasAnimations ! unat (u8AnimationIndex s)"
  define s2 where "s2 = s\<lparr>gu16NormalTimer := gu16NormalTimer s + (now - gu16LastCall s),
                      gu16RGBTimer := gu16RGBTimer s + (now - gu16LastCall s)\<rparr>"
  define x where "x = (if u8LastState s2 \<noteq> of_nat j
       then apply_normal (psInstructionsNormal a ! j) (of_nat j) s2 else s2)"
  have c: "calc_state (map u16TimingMs (psInstructionsNormal a))
             (unat (u8AnimationLengthNormal a)) (gu16NormalTimer s2) 0 0 = Inr j"
    using assms(4) by (simp add: a_def s2_def)
  have n: "cycle_normal a s2 = Inr x"
    unfolding x_def by (rule cycle_normal_at [OF c]) (use assms(5) in \<open>simp add: a_def\<close>)
  from assms(1) Animation_Cycle_unfold [OF assms(2,3)] n
  obtain s4 where 4: "cycle_rgb a x = Inr s4" and 1: "s1 = s4\<lparr>gu16LastCall := now\<rparr>"
    by (auto simp: a_def [symmetric] s2_def [symmetric] split: sum.splits)
  note f = cycle_rgb_frame [OF 4]
  show ?thesis
  proof (rule that [of s2])
    show "gu16NormalTimer s2 = gu16NormalTimer s + (now - gu16LastCall s)"
      "u8LastState s2 = u8LastState s" "u8RepetitionCounter s2 = u8RepetitionCounter s"
      "gau8LEDBrightness s2 = gau8LEDBrightness s"
      by (simp_all add: s2_def)
    show "gu16LastCall s1 = now" by (simp add: 1)
    have "u8AnimationIndex x = u8AnimationIndex s2"
      by (simp add: x_def apply_normal_frame)
    with f show "u8AnimationIndex s1 = u8AnimationIndex s" by (simp add: 1 s2_def)
  qed (unfold a_def [symmetric] x_def [symmetric], use f in \<open>simp_all add: 1\<close>)
qed

text \<open>
  The same for the RGB LED. The loop for the normal LEDs has to stop inside its table: at
  its end it would zero \<open>gu16RGBTimer\<close> as well.
\<close>

lemma Animation_Cycle_rgb_step:
  assumes "Animation_Cycle now s = Inr s1" and "now \<noteq> gu16LastCall s"
    and "unat (u8AnimationIndex s) < NUM_ANIMATIONS"
    and "calc_state (map u16TimingMs (psInstructionsNormal (gasAnimations ! unat (u8AnimationIndex s))))
           (unat (u8AnimationLengthNormal (gasAnimations ! unat (u8AnimationIndex s))))
           (gu16NormalTimer s + (now - gu16LastCall s)) 0 0 = Inr jn"
    and "jn < unat (u8AnimationLengthNormal (gasAnimations ! unat (u8AnimationIndex s)))"
    and "calc_state (map u16TimingMsRGB (psInstructionsRGB (gasAnimations ! unat (u8AnimationIndex s))))
           (unat (u8AnimationLengthRGB (gasAnimations ! unat (u8AnimationIndex s))))
           (gu16RGBTimer s + (now - gu16LastCall s)) 0 0 = Inr j"
    and "j < unat (u8AnimationLengthRGB (gasAnimations ! unat (u8AnimationIndex s)))"
  obtains s3 where
    "gu16RGBTimer s3 = gu16RGBTimer s + (now - gu16LastCall s)"
    "u8LastStateRGB s3 = u8LastStateRGB s" "u8RepetitionCounterRGB s3 = u8RepetitionCounterRGB s"
    "gau8RGBLEDs s3 = gau8RGBLEDs s"
    "gu16RGBTimer s1 = gu16RGBTimer (if u8LastStateRGB s3 \<noteq> of_nat j
       then apply_rgb (psInstructionsRGB (gasAnimations ! unat (u8AnimationIndex s)) ! j)
              (of_nat j) s3 else s3)"
    "u8LastStateRGB s1 = u8LastStateRGB (if u8LastStateRGB s3 \<noteq> of_nat j
       then apply_rgb (psInstructionsRGB (gasAnimations ! unat (u8AnimationIndex s)) ! j)
              (of_nat j) s3 else s3)"
    "u8RepetitionCounterRGB s1 = u8RepetitionCounterRGB (if u8LastStateRGB s3 \<noteq> of_nat j
       then apply_rgb (psInstructionsRGB (gasAnimations ! unat (u8AnimationIndex s)) ! j)
              (of_nat j) s3 else s3)"
    "gau8RGBLEDs s1 = gau8RGBLEDs (if u8LastStateRGB s3 \<noteq> of_nat j
       then apply_rgb (psInstructionsRGB (gasAnimations ! unat (u8AnimationIndex s)) ! j)
              (of_nat j) s3 else s3)"
    "gu16LastCall s1 = now" "u8AnimationIndex s1 = u8AnimationIndex s"
proof -
  define a where "a = gasAnimations ! unat (u8AnimationIndex s)"
  define s2 where "s2 = s\<lparr>gu16NormalTimer := gu16NormalTimer s + (now - gu16LastCall s),
                      gu16RGBTimer := gu16RGBTimer s + (now - gu16LastCall s)\<rparr>"
  define s3 where "s3 = (if u8LastState s2 \<noteq> of_nat jn
       then apply_normal (psInstructionsNormal a ! jn) (of_nat jn) s2 else s2)"
  define x where "x = (if u8LastStateRGB s3 \<noteq> of_nat j
       then apply_rgb (psInstructionsRGB a ! j) (of_nat j) s3 else s3)"
  have c: "calc_state (map u16TimingMs (psInstructionsNormal a))
             (unat (u8AnimationLengthNormal a)) (gu16NormalTimer s2) 0 0 = Inr jn"
    using assms(4) by (simp add: a_def s2_def)
  have n: "cycle_normal a s2 = Inr s3"
    unfolding s3_def by (rule cycle_normal_at [OF c]) (use assms(5) in \<open>simp add: a_def\<close>)
  note g = cycle_normal_frame [OF n]
  have t3: "gu16RGBTimer s3 = gu16RGBTimer s + (now - gu16LastCall s)"
    by (simp add: s3_def s2_def apply_normal_frame)
  have cr: "calc_state (map u16TimingMsRGB (psInstructionsRGB a))
             (unat (u8AnimationLengthRGB a)) (gu16RGBTimer s3) 0 0 = Inr j"
    using assms(6) by (simp add: a_def t3)
  have r: "cycle_rgb a s3 = Inr x"
    unfolding x_def by (rule cycle_rgb_at [OF cr]) (use assms(7) in \<open>simp add: a_def\<close>)
  from assms(1) Animation_Cycle_unfold [OF assms(2,3)] n r
  have 1: "s1 = x\<lparr>gu16LastCall := now\<rparr>"
    by (simp add: a_def [symmetric] s2_def [symmetric])
  show ?thesis
  proof (rule that [of s3])
    show "gu16RGBTimer s3 = gu16RGBTimer s + (now - gu16LastCall s)" by (rule t3)
    show "u8LastStateRGB s3 = u8LastStateRGB s" "u8RepetitionCounterRGB s3 = u8RepetitionCounterRGB s"
      "gau8RGBLEDs s3 = gau8RGBLEDs s"
      using g by (simp_all add: s2_def)
    show "gu16LastCall s1 = now" by (simp add: 1)
    have "u8AnimationIndex x = u8AnimationIndex s3"
      by (simp add: x_def apply_rgb_frame)
    with g show "u8AnimationIndex s1 = u8AnimationIndex s" by (simp add: 1 s2_def)
  qed (unfold a_def [symmetric] x_def [symmetric], simp_all add: 1)
qed

text \<open>
  One call of a run that stays at instruction \<open>k\<close>: its loop stops at \<open>k\<close> or at the
  instruction applied last. \<open>c\<close> is the number of earlier calls of the run whose loop
  stopped at \<open>k\<close>, and \<open>b0\<close>, \<open>t0\<close>, \<open>l0\<close> are the brightness array, the timer minus the
  time of the last call, and the last state at the start of the run.
\<close>

lemma REPEAT_step_normal:
  fixes c :: nat
  assumes ret: "Animation_Cycle now s = Inr s1" and t: "now \<noteq> gu16LastCall s"
    and idx: "unat (u8AnimationIndex s) < NUM_ANIMATIONS"
    and a: "a = gasAnimations ! unat (u8AnimationIndex s)"
    and k: "k < unat (u8AnimationLengthNormal a)"
    and ins: "ins = psInstructionsNormal a ! k"
    and rep: "REPEAT AND u8AnimationOpcode ins \<noteq> 0"
    and N: "u8AnimationOperand ins \<noteq> 0" "n = unat (u8AnimationOperand ins)"
    and l0: "l0 \<noteq> of_nat k"
    and sel: "calc_state (map u16TimingMs (psInstructionsNormal a))
                (unat (u8AnimationLengthNormal a))
                (gu16NormalTimer s + (now - gu16LastCall s)) 0 0 = Inr j"
    and j: "j = k \<or> j < unat (u8AnimationLengthNormal a) \<and> of_nat j = u8LastState s"
    and ib: "gau8LEDBrightness s = (exec_normal ins ^^ min c (n + 1)) b0"
    and it: "gu16NormalTimer s - gu16LastCall s = t0 - of_nat (min c n) * u16TimingMs ins"
    and il: "u8LastState s = (if c \<le> n then l0 else of_nat k)"
    and ic: "u8RepetitionCounter s =
               (if c = 0 \<or> n < c then 0 else u8AnimationOperand ins - of_nat (c - 1))"
    and c': "c' = (if j = k then Suc c else c)"
  shows "gau8LEDBrightness s1 = (exec_normal ins ^^ min c' (n + 1)) b0 \<and>
         gu16NormalTimer s1 - gu16LastCall s1 = t0 - of_nat (min c' n) * u16TimingMs ins \<and>
         u8LastState s1 = (if c' \<le> n then l0 else of_nat k) \<and>
         u8RepetitionCounter s1 =
           (if c' = 0 \<or> n < c' then 0 else u8AnimationOperand ins - of_nat (c' - 1)) \<and>
         u8AnimationIndex s1 = u8AnimationIndex s"
proof -
  have jl: "j < unat (u8AnimationLengthNormal a)" using j k by auto
  have npos: "0 < n" using N by (simp add: unat_gt_0)
  have Nn: "of_nat n = u8AnimationOperand ins" by (simp add: N(2))
  obtain s2 where
    t2: "gu16NormalTimer s2 = gu16NormalTimer s + (now - gu16LastCall s)"
    and l2: "u8LastState s2 = u8LastState s"
    and c2: "u8RepetitionCounter s2 = u8RepetitionCounter s"
    and b2: "gau8LEDBrightness s2 = gau8LEDBrightness s"
    and t1: "gu16NormalTimer s1 = gu16NormalTimer (if u8LastState s2 \<noteq> of_nat j
       then apply_normal (psInstructionsNormal a ! j) (of_nat j) s2 else s2)"
    and l1: "u8LastState s1 = u8LastState (if u8LastState s2 \<noteq> of_nat j
       then apply_normal (psInstructionsNormal a ! j) (of_nat j) s2 else s2)"
    and c1: "u8RepetitionCounter s1 = u8RepetitionCounter (if u8LastState s2 \<noteq> of_nat j
       then apply_normal (psInstructionsNormal a ! j) (of_nat j) s2 else s2)"
    and b1: "gau8LEDBrightness s1 = gau8LEDBrightness (if u8LastState s2 \<noteq> of_nat j
       then apply_normal (psInstructionsNormal a ! j) (of_nat j) s2 else s2)"
    and lc: "gu16LastCall s1 = now" and ix: "u8AnimationIndex s1 = u8AnimationIndex s"
    using Animation_Cycle_normal_step [OF ret t idx sel [unfolded a] jl [unfolded a]]
    unfolding a [symmetric] by blast
  have keep: "x + (m - l) - m = x - l" for x m l :: U16 by simp
  have rew: "x + (m - l) - d - m = x - l - d" for x m l d :: U16 by simp
  show ?thesis
  proof (cases "u8LastState s = of_nat j")
    case True
    then have s1: "gau8LEDBrightness s1 = gau8LEDBrightness s"
      "gu16NormalTimer s1 - gu16LastCall s1 = gu16NormalTimer s - gu16LastCall s"
      "u8LastState s1 = u8LastState s" "u8RepetitionCounter s1 = u8RepetitionCounter s"
      using t1 l1 c1 b1 by (simp_all add: l2 t2 c2 b2 lc keep)
    show ?thesis
    proof (cases "j = k")
      case jk: True
      with True il l0 have nc: "n < c" by (auto split: if_splits)
      then have "min c (n + 1) = n + 1" "min (Suc c) (n + 1) = n + 1" "min c n = n"
        "min (Suc c) n = n"
        by simp_all
      then show ?thesis using s1 ib it il ic ix jk nc by (simp add: c')
    next
      case False
      then show ?thesis using s1 ib it il ic ix by (simp add: c')
    qed
  next
    case False
    with j have jk: "j = k" by auto
    from False il have cn: "c \<le> n" by (auto simp: jk split: if_splits)
    have l: "u8LastState s2 \<noteq> of_nat j" using False by (simp add: l2)
    have insj: "psInstructionsNormal a ! j = ins" by (simp add: ins jk)
    note sel1 = t1 l1 c1 b1
    consider (first) "c = 0" | (again) "0 < c" "c < n" | (final) "c = n"
      using cn by linarith
    then show ?thesis
    proof cases
      case first
      then have "u8RepetitionCounter s2 = 0" using ic by (simp add: c2)
      note ap = apply_normal_first [OF rep this, of "of_nat j"]
      have "gau8LEDBrightness s1 = exec_normal ins (gau8LEDBrightness s)"
        "gu16NormalTimer s1 - gu16LastCall s1 =
           gu16NormalTimer s - gu16LastCall s - u16TimingMs ins"
        "u8LastState s1 = u8LastState s" "u8RepetitionCounter s1 = u8AnimationOperand ins"
        using sel1 l by (simp_all add: insj ap t2 l2 c2 b2 lc rew)
      then show ?thesis using ib it il ic ix first npos by (simp add: c' jk)
    next
      case again
      have c0: "u8RepetitionCounter s2 = u8AnimationOperand ins - of_nat (c - 1)"
        using again ic by (simp add: c2)
      have ne: "u8RepetitionCounter s2 \<noteq> 0"
        unfolding c0 by (rule u8_sub_of_nat_ne0) (use again in \<open>simp add: N(2)\<close>)
      have "of_nat (c - 1) + (1 :: U8) = of_nat c" using again by (simp add: of_nat_diff)
      then have m1: "u8RepetitionCounter s2 - 1 = u8AnimationOperand ins - of_nat c"
        unfolding c0 by (simp add: diff_diff_eq)
      have ne1: "u8RepetitionCounter s2 - 1 \<noteq> 0"
        unfolding m1 by (rule u8_sub_of_nat_ne0) (use again in \<open>simp add: N(2)\<close>)
      note ap = apply_normal_again [OF rep ne ne1, of "of_nat j"]
      have "gau8LEDBrightness s1 = exec_normal ins (gau8LEDBrightness s)"
        "gu16NormalTimer s1 - gu16LastCall s1 =
           gu16NormalTimer s - gu16LastCall s - u16TimingMs ins"
        "u8LastState s1 = u8LastState s"
        "u8RepetitionCounter s1 = u8AnimationOperand ins - of_nat c"
        using sel1 l by (simp_all add: insj ap t2 l2 m1 b2 lc rew)
      moreover have "min c (n + 1) = c" "min (Suc c) (n + 1) = Suc c" "min c n = c"
        "min (Suc c) n = Suc c"
        using again by simp_all
      moreover have "t0 - of_nat c * u16TimingMs ins - u16TimingMs ins =
          t0 - of_nat (Suc c) * u16TimingMs ins"
        by (simp add: algebra_simps)
      ultimately show ?thesis using ib it il ic ix again by (simp add: c' jk)
    next
      case final
      have "of_nat (n - 1) + (1 :: U8) = of_nat n" using npos by (simp add: of_nat_diff)
      then have "u8AnimationOperand ins - of_nat (n - 1) = 1"
        unfolding Nn [symmetric] by (simp add: algebra_simps)
      then have "u8RepetitionCounter s2 = 1" using final ic npos by (simp add: c2)
      note ap = apply_normal_last [OF rep this, of "of_nat j"]
      have "gau8LEDBrightness s1 = exec_normal ins (gau8LEDBrightness s)"
        "gu16NormalTimer s1 - gu16LastCall s1 = gu16NormalTimer s - gu16LastCall s"
        "u8LastState s1 = of_nat j" "u8RepetitionCounter s1 = 0"
        using sel1 l by (simp_all add: insj ap t2 l2 c2 b2 lc keep)
      then show ?thesis using ib it il ic ix final by (simp add: c' jk)
    qed
  qed
qed

text \<open>
  The run, by induction on the number of calls.
\<close>

lemma REPEAT_run_normal:
  fixes ss :: "globals list" and ts :: "U16 list" and js :: "nat list"
  assumes len: "length ss = Suc (length ts)" "length js = length ts"
    and run: "\<forall>i<length ts. ts ! i \<noteq> gu16LastCall (ss ! i) \<and>
                Animation_Cycle (ts ! i) (ss ! i) = Inr (ss ! Suc i)"
    and idx: "unat (u8AnimationIndex (ss ! 0)) < NUM_ANIMATIONS"
    and a: "a = gasAnimations ! unat (u8AnimationIndex (ss ! 0))"
    and k: "k < unat (u8AnimationLengthNormal a)"
    and ins: "ins = psInstructionsNormal a ! k"
    and rep: "REPEAT AND u8AnimationOpcode ins \<noteq> 0"
    and N: "u8AnimationOperand ins \<noteq> 0" "n = unat (u8AnimationOperand ins)"
    and start: "u8RepetitionCounter (ss ! 0) = 0" "u8LastState (ss ! 0) \<noteq> of_nat k"
    and sel: "\<forall>i<length ts.
                calc_state (map u16TimingMs (psInstructionsNormal a))
                  (unat (u8AnimationLengthNormal a))
                  (gu16NormalTimer (ss ! i) + (ts ! i - gu16LastCall (ss ! i))) 0 0
                  = Inr (js ! i) \<and>
                (js ! i = k \<or>
                 js ! i < unat (u8AnimationLengthNormal a) \<and>
                 of_nat (js ! i) = u8LastState (ss ! i))"
    and i: "i \<le> length ts"
  shows "gau8LEDBrightness (ss ! i) =
           (exec_normal ins ^^ min (count_list (take i js) k) (n + 1))
             (gau8LEDBrightness (ss ! 0)) \<and>
         gu16NormalTimer (ss ! i) - gu16LastCall (ss ! i) =
           gu16NormalTimer (ss ! 0) - gu16LastCall (ss ! 0)
             - of_nat (min (count_list (take i js) k) n) * u16TimingMs ins \<and>
         u8LastState (ss ! i) =
           (if count_list (take i js) k \<le> n then u8LastState (ss ! 0) else of_nat k) \<and>
         u8RepetitionCounter (ss ! i) =
           (if count_list (take i js) k = 0 \<or> n < count_list (take i js) k then 0
            else u8AnimationOperand ins - of_nat (count_list (take i js) k - 1)) \<and>
         u8AnimationIndex (ss ! i) = u8AnimationIndex (ss ! 0)"
  using i
proof (induction i)
  case 0
  show ?case using start by simp
next
  case (Suc i)
  then have il: "i < length ts" and IH:
    "gau8LEDBrightness (ss ! i) =
       (exec_normal ins ^^ min (count_list (take i js) k) (n + 1))
         (gau8LEDBrightness (ss ! 0))"
    "gu16NormalTimer (ss ! i) - gu16LastCall (ss ! i) =
       gu16NormalTimer (ss ! 0) - gu16LastCall (ss ! 0)
         - of_nat (min (count_list (take i js) k) n) * u16TimingMs ins"
    "u8LastState (ss ! i) =
       (if count_list (take i js) k \<le> n then u8LastState (ss ! 0) else of_nat k)"
    "u8RepetitionCounter (ss ! i) =
       (if count_list (take i js) k = 0 \<or> n < count_list (take i js) k then 0
        else u8AnimationOperand ins - of_nat (count_list (take i js) k - 1))"
    "u8AnimationIndex (ss ! i) = u8AnimationIndex (ss ! 0)"
    by simp_all
  from run il have t: "ts ! i \<noteq> gu16LastCall (ss ! i)"
    and ret: "Animation_Cycle (ts ! i) (ss ! i) = Inr (ss ! Suc i)"
    by simp_all
  from sel il have c: "calc_state (map u16TimingMs (psInstructionsNormal a))
        (unat (u8AnimationLengthNormal a))
        (gu16NormalTimer (ss ! i) + (ts ! i - gu16LastCall (ss ! i))) 0 0 = Inr (js ! i)"
    and j: "js ! i = k \<or>
        js ! i < unat (u8AnimationLengthNormal a) \<and> of_nat (js ! i) = u8LastState (ss ! i)"
    by simp_all
  have ai: "a = gasAnimations ! unat (u8AnimationIndex (ss ! i))" by (simp add: a IH(5))
  have ixi: "unat (u8AnimationIndex (ss ! i)) < NUM_ANIMATIONS" using idx by (simp add: IH(5))
  have "take (Suc i) js = take i js @ [js ! i]"
    using il len(2) by (simp add: take_Suc_conv_app_nth)
  then have c': "count_list (take (Suc i) js) k =
      (if js ! i = k then Suc (count_list (take i js) k) else count_list (take i js) k)"
    by simp
  from REPEAT_step_normal [OF ret t ixi ai k ins rep N start(2) c j IH(1,2,3,4) c']
  show ?case by (simp add: IH(5))
qed

text \<open>
  The same for the RGB LED, in calls whose loop for the normal LEDs stops inside its table.
\<close>

lemma REPEAT_step_rgb:
  fixes c :: nat
  assumes ret: "Animation_Cycle now s = Inr s1" and t: "now \<noteq> gu16LastCall s"
    and idx: "unat (u8AnimationIndex s) < NUM_ANIMATIONS"
    and a: "a = gasAnimations ! unat (u8AnimationIndex s)"
    and k: "k < unat (u8AnimationLengthRGB a)"
    and ins: "ins = psInstructionsRGB a ! k"
    and rep: "REPEAT AND u8AnimationOpcodeRGB ins \<noteq> 0"
    and N: "u8AnimationOperandRGB ins \<noteq> 0" "n = unat (u8AnimationOperandRGB ins)"
    and l0: "l0 \<noteq> of_nat k"
    and nsel: "calc_state (map u16TimingMs (psInstructionsNormal a))
                 (unat (u8AnimationLengthNormal a))
                 (gu16NormalTimer s + (now - gu16LastCall s)) 0 0 = Inr jn"
    and jn: "jn < unat (u8AnimationLengthNormal a)"
    and sel: "calc_state (map u16TimingMsRGB (psInstructionsRGB a))
                (unat (u8AnimationLengthRGB a))
                (gu16RGBTimer s + (now - gu16LastCall s)) 0 0 = Inr j"
    and j: "j = k \<or> j < unat (u8AnimationLengthRGB a) \<and> of_nat j = u8LastStateRGB s"
    and ib: "gau8RGBLEDs s = (exec_rgb ins ^^ min c (n + 1)) b0"
    and it: "gu16RGBTimer s - gu16LastCall s = t0 - of_nat (min c n) * u16TimingMsRGB ins"
    and il: "u8LastStateRGB s = (if c \<le> n then l0 else of_nat k)"
    and ic: "u8RepetitionCounterRGB s =
               (if c = 0 \<or> n < c then 0 else u8AnimationOperandRGB ins - of_nat (c - 1))"
    and c': "c' = (if j = k then Suc c else c)"
  shows "gau8RGBLEDs s1 = (exec_rgb ins ^^ min c' (n + 1)) b0 \<and>
         gu16RGBTimer s1 - gu16LastCall s1 = t0 - of_nat (min c' n) * u16TimingMsRGB ins \<and>
         u8LastStateRGB s1 = (if c' \<le> n then l0 else of_nat k) \<and>
         u8RepetitionCounterRGB s1 =
           (if c' = 0 \<or> n < c' then 0 else u8AnimationOperandRGB ins - of_nat (c' - 1)) \<and>
         u8AnimationIndex s1 = u8AnimationIndex s"
proof -
  have jl: "j < unat (u8AnimationLengthRGB a)" using j k by auto
  have npos: "0 < n" using N by (simp add: unat_gt_0)
  have Nn: "of_nat n = u8AnimationOperandRGB ins" by (simp add: N(2))
  obtain s2 where
    t2: "gu16RGBTimer s2 = gu16RGBTimer s + (now - gu16LastCall s)"
    and l2: "u8LastStateRGB s2 = u8LastStateRGB s"
    and c2: "u8RepetitionCounterRGB s2 = u8RepetitionCounterRGB s"
    and b2: "gau8RGBLEDs s2 = gau8RGBLEDs s"
    and t1: "gu16RGBTimer s1 = gu16RGBTimer (if u8LastStateRGB s2 \<noteq> of_nat j
       then apply_rgb (psInstructionsRGB a ! j) (of_nat j) s2 else s2)"
    and l1: "u8LastStateRGB s1 = u8LastStateRGB (if u8LastStateRGB s2 \<noteq> of_nat j
       then apply_rgb (psInstructionsRGB a ! j) (of_nat j) s2 else s2)"
    and c1: "u8RepetitionCounterRGB s1 = u8RepetitionCounterRGB (if u8LastStateRGB s2 \<noteq> of_nat j
       then apply_rgb (psInstructionsRGB a ! j) (of_nat j) s2 else s2)"
    and b1: "gau8RGBLEDs s1 = gau8RGBLEDs (if u8LastStateRGB s2 \<noteq> of_nat j
       then apply_rgb (psInstructionsRGB a ! j) (of_nat j) s2 else s2)"
    and lc: "gu16LastCall s1 = now" and ix: "u8AnimationIndex s1 = u8AnimationIndex s"
    using Animation_Cycle_rgb_step [OF ret t idx nsel [unfolded a] jn [unfolded a]
        sel [unfolded a] jl [unfolded a]]
    unfolding a [symmetric] by blast
  have keep: "x + (m - l) - m = x - l" for x m l :: U16 by simp
  have rew: "x + (m - l) - d - m = x - l - d" for x m l d :: U16 by simp
  show ?thesis
  proof (cases "u8LastStateRGB s = of_nat j")
    case True
    then have s1: "gau8RGBLEDs s1 = gau8RGBLEDs s"
      "gu16RGBTimer s1 - gu16LastCall s1 = gu16RGBTimer s - gu16LastCall s"
      "u8LastStateRGB s1 = u8LastStateRGB s" "u8RepetitionCounterRGB s1 = u8RepetitionCounterRGB s"
      using t1 l1 c1 b1 by (simp_all add: l2 t2 c2 b2 lc keep)
    show ?thesis
    proof (cases "j = k")
      case jk: True
      with True il l0 have nc: "n < c" by (auto split: if_splits)
      then have "min c (n + 1) = n + 1" "min (Suc c) (n + 1) = n + 1" "min c n = n"
        "min (Suc c) n = n"
        by simp_all
      then show ?thesis using s1 ib it il ic ix jk nc by (simp add: c')
    next
      case False
      then show ?thesis using s1 ib it il ic ix by (simp add: c')
    qed
  next
    case False
    with j have jk: "j = k" by auto
    from False il have cn: "c \<le> n" by (auto simp: jk split: if_splits)
    have l: "u8LastStateRGB s2 \<noteq> of_nat j" using False by (simp add: l2)
    have insj: "psInstructionsRGB a ! j = ins" by (simp add: ins jk)
    note sel1 = t1 l1 c1 b1
    consider (first) "c = 0" | (again) "0 < c" "c < n" | (final) "c = n"
      using cn by linarith
    then show ?thesis
    proof cases
      case first
      then have "u8RepetitionCounterRGB s2 = 0" using ic by (simp add: c2)
      note ap = apply_rgb_first [OF rep this, of "of_nat j"]
      have "gau8RGBLEDs s1 = exec_rgb ins (gau8RGBLEDs s)"
        "gu16RGBTimer s1 - gu16LastCall s1 =
           gu16RGBTimer s - gu16LastCall s - u16TimingMsRGB ins"
        "u8LastStateRGB s1 = u8LastStateRGB s" "u8RepetitionCounterRGB s1 = u8AnimationOperandRGB ins"
        using sel1 l by (simp_all add: insj ap t2 l2 c2 b2 lc rew)
      then show ?thesis using ib it il ic ix first npos by (simp add: c' jk)
    next
      case again
      have c0: "u8RepetitionCounterRGB s2 = u8AnimationOperandRGB ins - of_nat (c - 1)"
        using again ic by (simp add: c2)
      have ne: "u8RepetitionCounterRGB s2 \<noteq> 0"
        unfolding c0 by (rule u8_sub_of_nat_ne0) (use again in \<open>simp add: N(2)\<close>)
      have "of_nat (c - 1) + (1 :: U8) = of_nat c" using again by (simp add: of_nat_diff)
      then have m1: "u8RepetitionCounterRGB s2 - 1 = u8AnimationOperandRGB ins - of_nat c"
        unfolding c0 by (simp add: diff_diff_eq)
      have ne1: "u8RepetitionCounterRGB s2 - 1 \<noteq> 0"
        unfolding m1 by (rule u8_sub_of_nat_ne0) (use again in \<open>simp add: N(2)\<close>)
      note ap = apply_rgb_again [OF rep ne ne1, of "of_nat j"]
      have "gau8RGBLEDs s1 = exec_rgb ins (gau8RGBLEDs s)"
        "gu16RGBTimer s1 - gu16LastCall s1 =
           gu16RGBTimer s - gu16LastCall s - u16TimingMsRGB ins"
        "u8LastStateRGB s1 = u8LastStateRGB s"
        "u8RepetitionCounterRGB s1 = u8AnimationOperandRGB ins - of_nat c"
        using sel1 l by (simp_all add: insj ap t2 l2 m1 b2 lc rew)
      moreover have "min c (n + 1) = c" "min (Suc c) (n + 1) = Suc c" "min c n = c"
        "min (Suc c) n = Suc c"
        using again by simp_all
      moreover have "t0 - of_nat c * u16TimingMsRGB ins - u16TimingMsRGB ins =
          t0 - of_nat (Suc c) * u16TimingMsRGB ins"
        by (simp add: algebra_simps)
      ultimately show ?thesis using ib it il ic ix again by (simp add: c' jk)
    next
      case final
      have "of_nat (n - 1) + (1 :: U8) = of_nat n" using npos by (simp add: of_nat_diff)
      then have "u8AnimationOperandRGB ins - of_nat (n - 1) = 1"
        unfolding Nn [symmetric] by (simp add: algebra_simps)
      then have "u8RepetitionCounterRGB s2 = 1" using final ic npos by (simp add: c2)
      note ap = apply_rgb_last [OF rep this, of "of_nat j"]
      have "gau8RGBLEDs s1 = exec_rgb ins (gau8RGBLEDs s)"
        "gu16RGBTimer s1 - gu16LastCall s1 = gu16RGBTimer s - gu16LastCall s"
        "u8LastStateRGB s1 = of_nat j" "u8RepetitionCounterRGB s1 = 0"
        using sel1 l by (simp_all add: insj ap t2 l2 c2 b2 lc keep)
      then show ?thesis using ib it il ic ix final by (simp add: c' jk)
    qed
  qed
qed

lemma REPEAT_run_rgb:
  fixes ss :: "globals list" and ts :: "U16 list" and js :: "nat list" and jns :: "nat list"
  assumes len: "length ss = Suc (length ts)" "length js = length ts"
    and run: "\<forall>i<length ts. ts ! i \<noteq> gu16LastCall (ss ! i) \<and>
                Animation_Cycle (ts ! i) (ss ! i) = Inr (ss ! Suc i)"
    and idx: "unat (u8AnimationIndex (ss ! 0)) < NUM_ANIMATIONS"
    and a: "a = gasAnimations ! unat (u8AnimationIndex (ss ! 0))"
    and k: "k < unat (u8AnimationLengthRGB a)"
    and ins: "ins = psInstructionsRGB a ! k"
    and rep: "REPEAT AND u8AnimationOpcodeRGB ins \<noteq> 0"
    and N: "u8AnimationOperandRGB ins \<noteq> 0" "n = unat (u8AnimationOperandRGB ins)"
    and start: "u8RepetitionCounterRGB (ss ! 0) = 0" "u8LastStateRGB (ss ! 0) \<noteq> of_nat k"
    and nsel: "\<forall>i<length ts.
                 calc_state (map u16TimingMs (psInstructionsNormal a))
                   (unat (u8AnimationLengthNormal a))
                   (gu16NormalTimer (ss ! i) + (ts ! i - gu16LastCall (ss ! i))) 0 0
                   = Inr (jns ! i) \<and>
                 jns ! i < unat (u8AnimationLengthNormal a)"
    and sel: "\<forall>i<length ts.
                calc_state (map u16TimingMsRGB (psInstructionsRGB a))
                  (unat (u8AnimationLengthRGB a))
                  (gu16RGBTimer (ss ! i) + (ts ! i - gu16LastCall (ss ! i))) 0 0
                  = Inr (js ! i) \<and>
                (js ! i = k \<or>
                 js ! i < unat (u8AnimationLengthRGB a) \<and>
                 of_nat (js ! i) = u8LastStateRGB (ss ! i))"
    and i: "i \<le> length ts"
  shows "gau8RGBLEDs (ss ! i) =
           (exec_rgb ins ^^ min (count_list (take i js) k) (n + 1))
             (gau8RGBLEDs (ss ! 0)) \<and>
         gu16RGBTimer (ss ! i) - gu16LastCall (ss ! i) =
           gu16RGBTimer (ss ! 0) - gu16LastCall (ss ! 0)
             - of_nat (min (count_list (take i js) k) n) * u16TimingMsRGB ins \<and>
         u8LastStateRGB (ss ! i) =
           (if count_list (take i js) k \<le> n then u8LastStateRGB (ss ! 0) else of_nat k) \<and>
         u8RepetitionCounterRGB (ss ! i) =
           (if count_list (take i js) k = 0 \<or> n < count_list (take i js) k then 0
            else u8AnimationOperandRGB ins - of_nat (count_list (take i js) k - 1)) \<and>
         u8AnimationIndex (ss ! i) = u8AnimationIndex (ss ! 0)"
  using i
proof (induction i)
  case 0
  show ?case using start by simp
next
  case (Suc i)
  then have il: "i < length ts" and IH:
    "gau8RGBLEDs (ss ! i) =
       (exec_rgb ins ^^ min (count_list (take i js) k) (n + 1))
         (gau8RGBLEDs (ss ! 0))"
    "gu16RGBTimer (ss ! i) - gu16LastCall (ss ! i) =
       gu16RGBTimer (ss ! 0) - gu16LastCall (ss ! 0)
         - of_nat (min (count_list (take i js) k) n) * u16TimingMsRGB ins"
    "u8LastStateRGB (ss ! i) =
       (if count_list (take i js) k \<le> n then u8LastStateRGB (ss ! 0) else of_nat k)"
    "u8RepetitionCounterRGB (ss ! i) =
       (if count_list (take i js) k = 0 \<or> n < count_list (take i js) k then 0
        else u8AnimationOperandRGB ins - of_nat (count_list (take i js) k - 1))"
    "u8AnimationIndex (ss ! i) = u8AnimationIndex (ss ! 0)"
    by simp_all
  from run il have t: "ts ! i \<noteq> gu16LastCall (ss ! i)"
    and ret: "Animation_Cycle (ts ! i) (ss ! i) = Inr (ss ! Suc i)"
    by simp_all
  from sel il have c: "calc_state (map u16TimingMsRGB (psInstructionsRGB a))
        (unat (u8AnimationLengthRGB a))
        (gu16RGBTimer (ss ! i) + (ts ! i - gu16LastCall (ss ! i))) 0 0 = Inr (js ! i)"
    and j: "js ! i = k \<or>
        js ! i < unat (u8AnimationLengthRGB a) \<and> of_nat (js ! i) = u8LastStateRGB (ss ! i)"
    by simp_all
  from nsel il have nc: "calc_state (map u16TimingMs (psInstructionsNormal a))
        (unat (u8AnimationLengthNormal a))
        (gu16NormalTimer (ss ! i) + (ts ! i - gu16LastCall (ss ! i))) 0 0 = Inr (jns ! i)"
    and jn: "jns ! i < unat (u8AnimationLengthNormal a)"
    by simp_all
  have ai: "a = gasAnimations ! unat (u8AnimationIndex (ss ! i))" by (simp add: a IH(5))
  have ixi: "unat (u8AnimationIndex (ss ! i)) < NUM_ANIMATIONS" using idx by (simp add: IH(5))
  have "take (Suc i) js = take i js @ [js ! i]"
    using il len(2) by (simp add: take_Suc_conv_app_nth)
  then have c': "count_list (take (Suc i) js) k =
      (if js ! i = k then Suc (count_list (take i js) k) else count_list (take i js) k)"
    by simp
  from REPEAT_step_rgb [OF ret t ixi ai k ins rep N start(2) nc jn c j IH(1,2,3,4) c']
  show ?case by (simp add: IH(5))
qed

text \<open>
  C2, as the claim states it, fails: the loop selects the instruction from the timer
  alone, whatever the repetition counter holds, so a timeline can leave an instruction
  before its repetitions are done. With animation 0 and a call every 54 ms, instruction 3
  of the RGB LED (50 ms, REPEAT with operand 2) is reached with the counter at 0 in the
  call at 594 ms, where the timer is 294; it is applied there and in the call at 648 ms,
  where the timer is 298. In the call at 702 ms the timer is 302 and the loop stops at
  instruction 4. Instruction 3 has been applied 2 times, not 3, \<open>u8LastStateRGB\<close> never
  holds 3, and instruction 4 starts with the counter at 1 and is applied once.
\<close>

theorem REPEAT_left_early_counterexample:
  "REPEAT AND u8AnimationOpcodeRGB (psInstructionsRGB (gasAnimations ! 0) ! 3) \<noteq> 0 \<and>
   u8AnimationOperandRGB (psInstructionsRGB (gasAnimations ! 0) ! 3) = 2 \<and>
   run [Cycle 54, Cycle 108, Cycle 162, Cycle 216, Cycle 270, Cycle 324, Cycle 378,
        Cycle 432, Cycle 486, Cycle 540] (init_globals 0 0) =
     Inr \<lparr>gu16NormalTimer = 540, gu16RGBTimer = 240, gu16LastCall = 540, u8LastState = 4,
          u8RepetitionCounter = 0, u8LastStateRGB = 2, u8RepetitionCounterRGB = 0,
          gau8LEDBrightness = [10, 15, 10, 5, 0, 0, 0],
          gau8RGBLEDs = [15, 15, 0, 0], u8AnimationIndex = 0\<rparr> \<and>
   calc_state (map u16TimingMsRGB (psInstructionsRGB (gasAnimations ! 0)))
     (unat (u8AnimationLengthRGB (gasAnimations ! 0))) 294 0 0 = Inr 3 \<and>
   Animation_Cycle 594
     \<lparr>gu16NormalTimer = 540, gu16RGBTimer = 240, gu16LastCall = 540, u8LastState = 4,
          u8RepetitionCounter = 0, u8LastStateRGB = 2, u8RepetitionCounterRGB = 0,
          gau8LEDBrightness = [10, 15, 10, 5, 0, 0, 0],
          gau8RGBLEDs = [15, 15, 0, 0], u8AnimationIndex = 0\<rparr> =
     Inr \<lparr>gu16NormalTimer = 594, gu16RGBTimer = 244, gu16LastCall = 594, u8LastState = 4,
          u8RepetitionCounter = 0, u8LastStateRGB = 2, u8RepetitionCounterRGB = 2,
          gau8LEDBrightness = [10, 15, 10, 5, 0, 0, 0],
          gau8RGBLEDs = [15, 15, 5, 0], u8AnimationIndex = 0\<rparr> \<and>
   calc_state (map u16TimingMsRGB (psInstructionsRGB (gasAnimations ! 0)))
     (unat (u8AnimationLengthRGB (gasAnimations ! 0))) 298 0 0 = Inr 3 \<and>
   Animation_Cycle 648
     \<lparr>gu16NormalTimer = 594, gu16RGBTimer = 244, gu16LastCall = 594, u8LastState = 4,
          u8RepetitionCounter = 0, u8LastStateRGB = 2, u8RepetitionCounterRGB = 2,
          gau8LEDBrightness = [10, 15, 10, 5, 0, 0, 0],
          gau8RGBLEDs = [15, 15, 5, 0], u8AnimationIndex = 0\<rparr> =
     Inr \<lparr>gu16NormalTimer = 648, gu16RGBTimer = 248, gu16LastCall = 648, u8LastState = 5,
          u8RepetitionCounter = 0, u8LastStateRGB = 2, u8RepetitionCounterRGB = 1,
          gau8LEDBrightness = [5, 10, 15, 10, 5, 0, 0],
          gau8RGBLEDs = [15, 15, 10, 0], u8AnimationIndex = 0\<rparr> \<and>
   calc_state (map u16TimingMsRGB (psInstructionsRGB (gasAnimations ! 0)))
     (unat (u8AnimationLengthRGB (gasAnimations ! 0))) 302 0 0 = Inr 4 \<and>
   Animation_Cycle 702
     \<lparr>gu16NormalTimer = 648, gu16RGBTimer = 248, gu16LastCall = 648, u8LastState = 5,
          u8RepetitionCounter = 0, u8LastStateRGB = 2, u8RepetitionCounterRGB = 1,
          gau8LEDBrightness = [5, 10, 15, 10, 5, 0, 0],
          gau8RGBLEDs = [15, 15, 10, 0], u8AnimationIndex = 0\<rparr> =
     Inr \<lparr>gu16NormalTimer = 702, gu16RGBTimer = 302, gu16LastCall = 702, u8LastState = 6,
          u8RepetitionCounter = 0, u8LastStateRGB = 4, u8RepetitionCounterRGB = 0,
          gau8LEDBrightness = [0, 5, 10, 15, 10, 5, 0],
          gau8RGBLEDs = [15, 15, 10, 5], u8AnimationIndex = 0\<rparr>"
  by (simp add: eval_defs upt_rec)

text \<open>
  C2, amended. Take a run of calls of Animation_Cycle that return, each with time elapsed,
  with \<open>ss\<close> the states before, between and after the calls, \<open>ts\<close> the times, and \<open>jn\<close> and
  \<open>jr\<close> the indices at which the loops for the normal LEDs and for the RGB LED stop in
  each call. Take an instruction \<open>k\<close> of a timeline with REPEAT and an operand \<open>N\<close> of at
  least 1, with the repetition counter at 0 and the last state not \<open>k\<close> before the first
  call, and let the loop of that timeline stop, in every call of the run, at \<open>k\<close> or at
  the instruction applied last (such a call applies nothing on this timeline); for the RGB
  LED let, in addition, the loop for the normal LEDs stop inside its table in every call
  (at its end it zeroes \<open>gu16RGBTimer\<close> as well). Then after \<open>i\<close> calls, of which \<open>c\<close>
  stopped at \<open>k\<close>: the effect of the instruction has been applied \<open>min c (N + 1)\<close> times;
  the timer, taken relative to the time of the last call, has been stepped back by the
  timing of the instruction \<open>min c N\<close> times; the last state is unchanged while \<open>c \<le> N\<close>
  and is \<open>k\<close> from the call number \<open>N + 1\<close> on; the counter is \<open>N - (c - 1)\<close> for
  \<open>1 \<le> c \<le> N\<close> and 0 otherwise.
\<close>

theorem REPEAT_applied_while_selected:
  fixes ss :: "globals list" and ts :: "U16 list" and jn :: "nat list" and jr :: "nat list"
    and k :: nat and kr :: nat and i :: nat
  defines "a \<equiv> gasAnimations ! unat (u8AnimationIndex (ss ! 0))"
  defines "ins \<equiv> psInstructionsNormal a ! k" and "insr \<equiv> psInstructionsRGB a ! kr"
  defines "c \<equiv> count_list (take i jn) k" and "cr \<equiv> count_list (take i jr) kr"
  assumes len: "length ss = Suc (length ts)" "length jn = length ts" "length jr = length ts"
    and i: "i \<le> length ts"
    and idx: "unat (u8AnimationIndex (ss ! 0)) < NUM_ANIMATIONS"
    and run: "\<forall>i<length ts. ts ! i \<noteq> gu16LastCall (ss ! i) \<and>
                Animation_Cycle (ts ! i) (ss ! i) = Inr (ss ! Suc i)"
    and stop: "\<forall>i<length ts.
                 calc_state (map u16TimingMs (psInstructionsNormal a))
                   (unat (u8AnimationLengthNormal a))
                   (gu16NormalTimer (ss ! i) + (ts ! i - gu16LastCall (ss ! i))) 0 0
                   = Inr (jn ! i) \<and>
                 calc_state (map u16TimingMsRGB (psInstructionsRGB a))
                   (unat (u8AnimationLengthRGB a))
                   (gu16RGBTimer (ss ! i) + (ts ! i - gu16LastCall (ss ! i))) 0 0
                   = Inr (jr ! i)"
  shows "(k < unat (u8AnimationLengthNormal a) \<and>
          REPEAT AND u8AnimationOpcode ins \<noteq> 0 \<and> u8AnimationOperand ins \<noteq> 0 \<and>
          u8RepetitionCounter (ss ! 0) = 0 \<and> u8LastState (ss ! 0) \<noteq> of_nat k \<and>
          (\<forall>i<length ts. jn ! i = k \<or>
             jn ! i < unat (u8AnimationLengthNormal a) \<and>
             of_nat (jn ! i) = u8LastState (ss ! i)) \<longrightarrow>
          gau8LEDBrightness (ss ! i) =
            (exec_normal ins ^^ min c (unat (u8AnimationOperand ins) + 1))
              (gau8LEDBrightness (ss ! 0)) \<and>
          gu16NormalTimer (ss ! i) - gu16LastCall (ss ! i) =
            gu16NormalTimer (ss ! 0) - gu16LastCall (ss ! 0)
              - of_nat (min c (unat (u8AnimationOperand ins))) * u16TimingMs ins \<and>
          u8LastState (ss ! i) =
            (if c \<le> unat (u8AnimationOperand ins) then u8LastState (ss ! 0) else of_nat k) \<and>
          u8RepetitionCounter (ss ! i) =
            (if c = 0 \<or> unat (u8AnimationOperand ins) < c then 0
             else u8AnimationOperand ins - of_nat (c - 1))) \<and>
         (kr < unat (u8AnimationLengthRGB a) \<and>
          REPEAT AND u8AnimationOpcodeRGB insr \<noteq> 0 \<and> u8AnimationOperandRGB insr \<noteq> 0 \<and>
          u8RepetitionCounterRGB (ss ! 0) = 0 \<and> u8LastStateRGB (ss ! 0) \<noteq> of_nat kr \<and>
          (\<forall>i<length ts. jn ! i < unat (u8AnimationLengthNormal a) \<and>
             (jr ! i = kr \<or>
              jr ! i < unat (u8AnimationLengthRGB a) \<and>
              of_nat (jr ! i) = u8LastStateRGB (ss ! i))) \<longrightarrow>
          gau8RGBLEDs (ss ! i) =
            (exec_rgb insr ^^ min cr (unat (u8AnimationOperandRGB insr) + 1))
              (gau8RGBLEDs (ss ! 0)) \<and>
          gu16RGBTimer (ss ! i) - gu16LastCall (ss ! i) =
            gu16RGBTimer (ss ! 0) - gu16LastCall (ss ! 0)
              - of_nat (min cr (unat (u8AnimationOperandRGB insr))) * u16TimingMsRGB insr \<and>
          u8LastStateRGB (ss ! i) =
            (if cr \<le> unat (u8AnimationOperandRGB insr) then u8LastStateRGB (ss ! 0)
             else of_nat kr) \<and>
          u8RepetitionCounterRGB (ss ! i) =
            (if cr = 0 \<or> unat (u8AnimationOperandRGB insr) < cr then 0
             else u8AnimationOperandRGB insr - of_nat (cr - 1)))"
proof (intro conjI impI)
  assume h: "k < unat (u8AnimationLengthNormal a) \<and>
          REPEAT AND u8AnimationOpcode ins \<noteq> 0 \<and> u8AnimationOperand ins \<noteq> 0 \<and>
          u8RepetitionCounter (ss ! 0) = 0 \<and> u8LastState (ss ! 0) \<noteq> of_nat k \<and>
          (\<forall>i<length ts. jn ! i = k \<or>
             jn ! i < unat (u8AnimationLengthNormal a) \<and>
             of_nat (jn ! i) = u8LastState (ss ! i))"
  have sel: "\<forall>i<length ts.
                calc_state (map u16TimingMs (psInstructionsNormal a))
                  (unat (u8AnimationLengthNormal a))
                  (gu16NormalTimer (ss ! i) + (ts ! i - gu16LastCall (ss ! i))) 0 0
                  = Inr (jn ! i) \<and>
                (jn ! i = k \<or>
                 jn ! i < unat (u8AnimationLengthNormal a) \<and>
                 of_nat (jn ! i) = u8LastState (ss ! i))"
    using stop h by blast
  note r = REPEAT_run_normal [where ss = ss and ts = ts and js = jn and a = a and k = k
      and ins = ins and n = "unat (u8AnimationOperand ins)" and i = i,
      OF len(1,2) run idx _ _ _ _ _ _ _ _ sel i]
  from h have "gau8LEDBrightness (ss ! i) =
            (exec_normal ins ^^ min c (unat (u8AnimationOperand ins) + 1))
              (gau8LEDBrightness (ss ! 0)) \<and>
          gu16NormalTimer (ss ! i) - gu16LastCall (ss ! i) =
            gu16NormalTimer (ss ! 0) - gu16LastCall (ss ! 0)
              - of_nat (min c (unat (u8AnimationOperand ins))) * u16TimingMs ins \<and>
          u8LastState (ss ! i) =
            (if c \<le> unat (u8AnimationOperand ins) then u8LastState (ss ! 0) else of_nat k) \<and>
          u8RepetitionCounter (ss ! i) =
            (if c = 0 \<or> unat (u8AnimationOperand ins) < c then 0
             else u8AnimationOperand ins - of_nat (c - 1))"
    unfolding c_def by (intro conjI) (use r in \<open>simp_all add: a_def ins_def\<close>)
  then show "gau8LEDBrightness (ss ! i) =
            (exec_normal ins ^^ min c (unat (u8AnimationOperand ins) + 1))
              (gau8LEDBrightness (ss ! 0))"
    "gu16NormalTimer (ss ! i) - gu16LastCall (ss ! i) =
            gu16NormalTimer (ss ! 0) - gu16LastCall (ss ! 0)
              - of_nat (min c (unat (u8AnimationOperand ins))) * u16TimingMs ins"
    "u8LastState (ss ! i) =
            (if c \<le> unat (u8AnimationOperand ins) then u8LastState (ss ! 0) else of_nat k)"
    "u8RepetitionCounter (ss ! i) =
            (if c = 0 \<or> unat (u8AnimationOperand ins) < c then 0
             else u8AnimationOperand ins - of_nat (c - 1))"
    by blast+
next
  assume h: "kr < unat (u8AnimationLengthRGB a) \<and>
          REPEAT AND u8AnimationOpcodeRGB insr \<noteq> 0 \<and> u8AnimationOperandRGB insr \<noteq> 0 \<and>
          u8RepetitionCounterRGB (ss ! 0) = 0 \<and> u8LastStateRGB (ss ! 0) \<noteq> of_nat kr \<and>
          (\<forall>i<length ts. jn ! i < unat (u8AnimationLengthNormal a) \<and>
             (jr ! i = kr \<or>
              jr ! i < unat (u8AnimationLengthRGB a) \<and>
              of_nat (jr ! i) = u8LastStateRGB (ss ! i)))"
  have nsel: "\<forall>i<length ts.
                 calc_state (map u16TimingMs (psInstructionsNormal a))
                   (unat (u8AnimationLengthNormal a))
                   (gu16NormalTimer (ss ! i) + (ts ! i - gu16LastCall (ss ! i))) 0 0
                   = Inr (jn ! i) \<and>
                 jn ! i < unat (u8AnimationLengthNormal a)"
    using stop h by blast
  have sel: "\<forall>i<length ts.
                calc_state (map u16TimingMsRGB (psInstructionsRGB a))
                  (unat (u8AnimationLengthRGB a))
                  (gu16RGBTimer (ss ! i) + (ts ! i - gu16LastCall (ss ! i))) 0 0
                  = Inr (jr ! i) \<and>
                (jr ! i = kr \<or>
                 jr ! i < unat (u8AnimationLengthRGB a) \<and>
                 of_nat (jr ! i) = u8LastStateRGB (ss ! i))"
    using stop h by blast
  note r = REPEAT_run_rgb [where ss = ss and ts = ts and js = jr and jns = jn and a = a
      and k = kr and ins = insr and n = "unat (u8AnimationOperandRGB insr)" and i = i,
      OF len(1,3) run idx _ _ _ _ _ _ _ _ nsel sel i]
  from h have "gau8RGBLEDs (ss ! i) =
            (exec_rgb insr ^^ min cr (unat (u8AnimationOperandRGB insr) + 1))
              (gau8RGBLEDs (ss ! 0)) \<and>
          gu16RGBTimer (ss ! i) - gu16LastCall (ss ! i) =
            gu16RGBTimer (ss ! 0) - gu16LastCall (ss ! 0)
              - of_nat (min cr (unat (u8AnimationOperandRGB insr))) * u16TimingMsRGB insr \<and>
          u8LastStateRGB (ss ! i) =
            (if cr \<le> unat (u8AnimationOperandRGB insr) then u8LastStateRGB (ss ! 0)
             else of_nat kr) \<and>
          u8RepetitionCounterRGB (ss ! i) =
            (if cr = 0 \<or> unat (u8AnimationOperandRGB insr) < cr then 0
             else u8AnimationOperandRGB insr - of_nat (cr - 1))"
    unfolding cr_def by (intro conjI) (use r in \<open>simp_all add: a_def insr_def\<close>)
  then show "gau8RGBLEDs (ss ! i) =
            (exec_rgb insr ^^ min cr (unat (u8AnimationOperandRGB insr) + 1))
              (gau8RGBLEDs (ss ! 0))"
    "gu16RGBTimer (ss ! i) - gu16LastCall (ss ! i) =
            gu16RGBTimer (ss ! 0) - gu16LastCall (ss ! 0)
              - of_nat (min cr (unat (u8AnimationOperandRGB insr))) * u16TimingMsRGB insr"
    "u8LastStateRGB (ss ! i) =
            (if cr \<le> unat (u8AnimationOperandRGB insr) then u8LastStateRGB (ss ! 0)
             else of_nat kr)"
    "u8RepetitionCounterRGB (ss ! i) =
            (if cr = 0 \<or> unat (u8AnimationOperandRGB insr) < cr then 0
             else u8AnimationOperandRGB insr - of_nat (cr - 1))"
    by blast+
qed

theorem REPEAT_applied_while_selected_witness:
  "Animation_Cycle 116
     \<lparr>gu16NormalTimer = 1, gu16RGBTimer = 1, gu16LastCall = 1, u8LastState = 0,
      u8RepetitionCounter = 0, u8LastStateRGB = 0, u8RepetitionCounterRGB = 0,
      gau8LEDBrightness = [0, 0, 0, 0, 0, 0, 0],
      gau8RGBLEDs = [0, 0, 0, 0], u8AnimationIndex = 1\<rparr> =
   Inr \<lparr>gu16NormalTimer = 1, gu16RGBTimer = 1, gu16LastCall = 116, u8LastState = 0,
        u8RepetitionCounter = 4, u8LastStateRGB = 0, u8RepetitionCounterRGB = 4,
        gau8LEDBrightness = [3, 3, 3, 3, 3, 3, 3],
        gau8RGBLEDs = [3, 3, 3, 3], u8AnimationIndex = 1\<rparr> \<and>
   Animation_Cycle 150
     \<lparr>gu16NormalTimer = 1, gu16RGBTimer = 1, gu16LastCall = 116, u8LastState = 0,
      u8RepetitionCounter = 4, u8LastStateRGB = 0, u8RepetitionCounterRGB = 4,
      gau8LEDBrightness = [3, 3, 3, 3, 3, 3, 3],
      gau8RGBLEDs = [3, 3, 3, 3], u8AnimationIndex = 1\<rparr> =
   Inr \<lparr>gu16NormalTimer = 35, gu16RGBTimer = 35, gu16LastCall = 150, u8LastState = 0,
        u8RepetitionCounter = 4, u8LastStateRGB = 0, u8RepetitionCounterRGB = 4,
        gau8LEDBrightness = [3, 3, 3, 3, 3, 3, 3],
        gau8RGBLEDs = [3, 3, 3, 3], u8AnimationIndex = 1\<rparr> \<and>
   Animation_Cycle 231
     \<lparr>gu16NormalTimer = 35, gu16RGBTimer = 35, gu16LastCall = 150, u8LastState = 0,
      u8RepetitionCounter = 4, u8LastStateRGB = 0, u8RepetitionCounterRGB = 4,
      gau8LEDBrightness = [3, 3, 3, 3, 3, 3, 3],
      gau8RGBLEDs = [3, 3, 3, 3], u8AnimationIndex = 1\<rparr> =
   Inr \<lparr>gu16NormalTimer = 1, gu16RGBTimer = 1, gu16LastCall = 231, u8LastState = 0,
        u8RepetitionCounter = 3, u8LastStateRGB = 0, u8RepetitionCounterRGB = 3,
        gau8LEDBrightness = [6, 6, 6, 6, 6, 6, 6],
        gau8RGBLEDs = [6, 6, 6, 6], u8AnimationIndex = 1\<rparr> \<and>
   Animation_Cycle 346
     \<lparr>gu16NormalTimer = 1, gu16RGBTimer = 1, gu16LastCall = 231, u8LastState = 0,
      u8RepetitionCounter = 3, u8LastStateRGB = 0, u8RepetitionCounterRGB = 3,
      gau8LEDBrightness = [6, 6, 6, 6, 6, 6, 6],
      gau8RGBLEDs = [6, 6, 6, 6], u8AnimationIndex = 1\<rparr> =
   Inr \<lparr>gu16NormalTimer = 1, gu16RGBTimer = 1, gu16LastCall = 346, u8LastState = 0,
        u8RepetitionCounter = 2, u8LastStateRGB = 0, u8RepetitionCounterRGB = 2,
        gau8LEDBrightness = [9, 9, 9, 9, 9, 9, 9],
        gau8RGBLEDs = [9, 9, 9, 9], u8AnimationIndex = 1\<rparr> \<and>
   Animation_Cycle 461
     \<lparr>gu16NormalTimer = 1, gu16RGBTimer = 1, gu16LastCall = 346, u8LastState = 0,
      u8RepetitionCounter = 2, u8LastStateRGB = 0, u8RepetitionCounterRGB = 2,
      gau8LEDBrightness = [9, 9, 9, 9, 9, 9, 9],
      gau8RGBLEDs = [9, 9, 9, 9], u8AnimationIndex = 1\<rparr> =
   Inr \<lparr>gu16NormalTimer = 1, gu16RGBTimer = 1, gu16LastCall = 461, u8LastState = 0,
        u8RepetitionCounter = 1, u8LastStateRGB = 0, u8RepetitionCounterRGB = 1,
        gau8LEDBrightness = [12, 12, 12, 12, 12, 12, 12],
        gau8RGBLEDs = [12, 12, 12, 12], u8AnimationIndex = 1\<rparr> \<and>
   Animation_Cycle 576
     \<lparr>gu16NormalTimer = 1, gu16RGBTimer = 1, gu16LastCall = 461, u8LastState = 0,
      u8RepetitionCounter = 1, u8LastStateRGB = 0, u8RepetitionCounterRGB = 1,
      gau8LEDBrightness = [12, 12, 12, 12, 12, 12, 12],
      gau8RGBLEDs = [12, 12, 12, 12], u8AnimationIndex = 1\<rparr> =
   Inr \<lparr>gu16NormalTimer = 116, gu16RGBTimer = 116, gu16LastCall = 576, u8LastState = 1,
        u8RepetitionCounter = 0, u8LastStateRGB = 1, u8RepetitionCounterRGB = 0,
        gau8LEDBrightness = [15, 15, 15, 15, 15, 15, 15],
        gau8RGBLEDs = [15, 15, 15, 15], u8AnimationIndex = 1\<rparr> \<and>
   Animation_Cycle 600
     \<lparr>gu16NormalTimer = 116, gu16RGBTimer = 116, gu16LastCall = 576, u8LastState = 1,
      u8RepetitionCounter = 0, u8LastStateRGB = 1, u8RepetitionCounterRGB = 0,
      gau8LEDBrightness = [15, 15, 15, 15, 15, 15, 15],
      gau8RGBLEDs = [15, 15, 15, 15], u8AnimationIndex = 1\<rparr> =
   Inr \<lparr>gu16NormalTimer = 140, gu16RGBTimer = 140, gu16LastCall = 600, u8LastState = 1,
        u8RepetitionCounter = 0, u8LastStateRGB = 1, u8RepetitionCounterRGB = 0,
        gau8LEDBrightness = [15, 15, 15, 15, 15, 15, 15],
        gau8RGBLEDs = [15, 15, 15, 15], u8AnimationIndex = 1\<rparr> \<and>
   (exec_normal (psInstructionsNormal (gasAnimations ! 1) ! 1) ^^ 5) [0, 0, 0, 0, 0, 0, 0] =
     [15, 15, 15, 15, 15, 15, 15] \<and>
   (exec_rgb (psInstructionsRGB (gasAnimations ! 1) ! 1) ^^ 5) [0, 0, 0, 0] = [15, 15, 15, 15]"
proof -
  let ?ss = "[\<lparr>gu16NormalTimer = 1, gu16RGBTimer = 1, gu16LastCall = 1, u8LastState = 0,
        u8RepetitionCounter = 0, u8LastStateRGB = 0, u8RepetitionCounterRGB = 0,
        gau8LEDBrightness = [0, 0, 0, 0, 0, 0, 0],
        gau8RGBLEDs = [0, 0, 0, 0], u8AnimationIndex = 1\<rparr>,
       \<lparr>gu16NormalTimer = 1, gu16RGBTimer = 1, gu16LastCall = 116, u8LastState = 0,
        u8RepetitionCounter = 4, u8LastStateRGB = 0, u8RepetitionCounterRGB = 4,
        gau8LEDBrightness = [3, 3, 3, 3, 3, 3, 3],
        gau8RGBLEDs = [3, 3, 3, 3], u8AnimationIndex = 1\<rparr>,
       \<lparr>gu16NormalTimer = 35, gu16RGBTimer = 35, gu16LastCall = 150, u8LastState = 0,
        u8RepetitionCounter = 4, u8LastStateRGB = 0, u8RepetitionCounterRGB = 4,
        gau8LEDBrightness = [3, 3, 3, 3, 3, 3, 3],
        gau8RGBLEDs = [3, 3, 3, 3], u8AnimationIndex = 1\<rparr>,
       \<lparr>gu16NormalTimer = 1, gu16RGBTimer = 1, gu16LastCall = 231, u8LastState = 0,
        u8RepetitionCounter = 3, u8LastStateRGB = 0, u8RepetitionCounterRGB = 3,
        gau8LEDBrightness = [6, 6, 6, 6, 6, 6, 6],
        gau8RGBLEDs = [6, 6, 6, 6], u8AnimationIndex = 1\<rparr>,
       \<lparr>gu16NormalTimer = 1, gu16RGBTimer = 1, gu16LastCall = 346, u8LastState = 0,
        u8RepetitionCounter = 2, u8LastStateRGB = 0, u8RepetitionCounterRGB = 2,
        gau8LEDBrightness = [9, 9, 9, 9, 9, 9, 9],
        gau8RGBLEDs = [9, 9, 9, 9], u8AnimationIndex = 1\<rparr>,
       \<lparr>gu16NormalTimer = 1, gu16RGBTimer = 1, gu16LastCall = 461, u8LastState = 0,
        u8RepetitionCounter = 1, u8LastStateRGB = 0, u8RepetitionCounterRGB = 1,
        gau8LEDBrightness = [12, 12, 12, 12, 12, 12, 12],
        gau8RGBLEDs = [12, 12, 12, 12], u8AnimationIndex = 1\<rparr>,
       \<lparr>gu16NormalTimer = 116, gu16RGBTimer = 116, gu16LastCall = 576, u8LastState = 1,
        u8RepetitionCounter = 0, u8LastStateRGB = 1, u8RepetitionCounterRGB = 0,
        gau8LEDBrightness = [15, 15, 15, 15, 15, 15, 15],
        gau8RGBLEDs = [15, 15, 15, 15], u8AnimationIndex = 1\<rparr>,
       \<lparr>gu16NormalTimer = 140, gu16RGBTimer = 140, gu16LastCall = 600, u8LastState = 1,
        u8RepetitionCounter = 0, u8LastStateRGB = 1, u8RepetitionCounterRGB = 0,
        gau8LEDBrightness = [15, 15, 15, 15, 15, 15, 15],
        gau8RGBLEDs = [15, 15, 15, 15], u8AnimationIndex = 1\<rparr>]"
  let ?ts = "[116, 150, 231, 346, 461, 576, 600] :: U16 list"
  let ?js = "[1, 0, 1, 1, 1, 1, 1] :: nat list"
  have run: "\<forall>i<length ?ts. ?ts ! i \<noteq> gu16LastCall (?ss ! i) \<and>
                Animation_Cycle (?ts ! i) (?ss ! i) = Inr (?ss ! Suc i)"
    by (simp add: All_less_Suc eval_defs upt_rec)
  have idx: "unat (u8AnimationIndex (?ss ! 0)) < NUM_ANIMATIONS"
    by (simp add: NUM_ANIMATIONS_def)
  have a: "gasAnimations ! unat (u8AnimationIndex (?ss ! 0)) = gasAnimations ! 1"
    by simp
  have stop: "\<forall>i<length ?ts.
                 calc_state (map u16TimingMs (psInstructionsNormal (gasAnimations ! 1)))
                   (unat (u8AnimationLengthNormal (gasAnimations ! 1)))
                   (gu16NormalTimer (?ss ! i) + (?ts ! i - gu16LastCall (?ss ! i))) 0 0
                   = Inr (?js ! i) \<and>
                 calc_state (map u16TimingMsRGB (psInstructionsRGB (gasAnimations ! 1)))
                   (unat (u8AnimationLengthRGB (gasAnimations ! 1)))
                   (gu16RGBTimer (?ss ! i) + (?ts ! i - gu16LastCall (?ss ! i))) 0 0
                   = Inr (?js ! i)"
    by (simp add: All_less_Suc eval_defs)
  have hn: "1 < unat (u8AnimationLengthNormal (gasAnimations ! 1)) \<and>
          REPEAT AND u8AnimationOpcode (psInstructionsNormal (gasAnimations ! 1) ! 1) \<noteq> 0 \<and>
          u8AnimationOperand (psInstructionsNormal (gasAnimations ! 1) ! 1) \<noteq> 0 \<and>
          u8RepetitionCounter (?ss ! 0) = 0 \<and> u8LastState (?ss ! 0) \<noteq> of_nat 1 \<and>
          (\<forall>i<length ?ts. ?js ! i = 1 \<or>
             ?js ! i < unat (u8AnimationLengthNormal (gasAnimations ! 1)) \<and>
             of_nat (?js ! i) = u8LastState (?ss ! i))"
    by (simp add: All_less_Suc eval_defs)
  have hr: "1 < unat (u8AnimationLengthRGB (gasAnimations ! 1)) \<and>
          REPEAT AND u8AnimationOpcodeRGB (psInstructionsRGB (gasAnimations ! 1) ! 1) \<noteq> 0 \<and>
          u8AnimationOperandRGB (psInstructionsRGB (gasAnimations ! 1) ! 1) \<noteq> 0 \<and>
          u8RepetitionCounterRGB (?ss ! 0) = 0 \<and> u8LastStateRGB (?ss ! 0) \<noteq> of_nat 1 \<and>
          (\<forall>i<length ?ts. ?js ! i < unat (u8AnimationLengthNormal (gasAnimations ! 1)) \<and>
             (?js ! i = 1 \<or>
              ?js ! i < unat (u8AnimationLengthRGB (gasAnimations ! 1)) \<and>
              of_nat (?js ! i) = u8LastStateRGB (?ss ! i)))"
    by (simp add: All_less_Suc eval_defs)
  have c: "count_list (take 7 ?js) 1 = 6" by simp
  have N: "unat (u8AnimationOperand (psInstructionsNormal (gasAnimations ! 1) ! 1)) = 4"
      "unat (u8AnimationOperandRGB (psInstructionsRGB (gasAnimations ! 1) ! 1)) = 4"
    by (simp_all add: eval_defs)
  note r = REPEAT_applied_while_selected [where ss = ?ss and ts = ?ts and jn = ?js
      and jr = ?js and k = 1 and kr = 1 and i = 7, unfolded a, OF _ _ _ _ idx run stop]
  have "length ?ss = Suc (length ?ts)" "length ?js = length ?ts" "7 \<le> length ?ts"
    by simp_all
  note r1 = r [OF this(1) this(2) this(2) this(3)]
  from r1 hn have "gau8LEDBrightness (?ss ! 7) =
      (exec_normal (psInstructionsNormal (gasAnimations ! 1) ! 1) ^^
         min (count_list (take 7 ?js) 1)
           (unat (u8AnimationOperand (psInstructionsNormal (gasAnimations ! 1) ! 1)) + 1))
       (gau8LEDBrightness (?ss ! 0))"
    by blast
  then have n: "(exec_normal (psInstructionsNormal (gasAnimations ! 1) ! 1) ^^ 5)
      [0, 0, 0, 0, 0, 0, 0] = [15, 15, 15, 15, 15, 15, 15]"
    unfolding c N by simp
  from r1 hr have "gau8RGBLEDs (?ss ! 7) =
      (exec_rgb (psInstructionsRGB (gasAnimations ! 1) ! 1) ^^
         min (count_list (take 7 ?js) 1)
           (unat (u8AnimationOperandRGB (psInstructionsRGB (gasAnimations ! 1) ! 1)) + 1))
       (gau8RGBLEDs (?ss ! 0))"
    by blast
  then have rg: "(exec_rgb (psInstructionsRGB (gasAnimations ! 1) ! 1) ^^ 5)
      [0, 0, 0, 0] = [15, 15, 15, 15]"
    unfolding c N by simp
  have calls: "Animation_Cycle 116
     \<lparr>gu16NormalTimer = 1, gu16RGBTimer = 1, gu16LastCall = 1, u8LastState = 0,
      u8RepetitionCounter = 0, u8LastStateRGB = 0, u8RepetitionCounterRGB = 0,
      gau8LEDBrightness = [0, 0, 0, 0, 0, 0, 0],
      gau8RGBLEDs = [0, 0, 0, 0], u8AnimationIndex = 1\<rparr> =
   Inr \<lparr>gu16NormalTimer = 1, gu16RGBTimer = 1, gu16LastCall = 116, u8LastState = 0,
        u8RepetitionCounter = 4, u8LastStateRGB = 0, u8RepetitionCounterRGB = 4,
        gau8LEDBrightness = [3, 3, 3, 3, 3, 3, 3],
        gau8RGBLEDs = [3, 3, 3, 3], u8AnimationIndex = 1\<rparr> \<and>
   Animation_Cycle 150
     \<lparr>gu16NormalTimer = 1, gu16RGBTimer = 1, gu16LastCall = 116, u8LastState = 0,
      u8RepetitionCounter = 4, u8LastStateRGB = 0, u8RepetitionCounterRGB = 4,
      gau8LEDBrightness = [3, 3, 3, 3, 3, 3, 3],
      gau8RGBLEDs = [3, 3, 3, 3], u8AnimationIndex = 1\<rparr> =
   Inr \<lparr>gu16NormalTimer = 35, gu16RGBTimer = 35, gu16LastCall = 150, u8LastState = 0,
        u8RepetitionCounter = 4, u8LastStateRGB = 0, u8RepetitionCounterRGB = 4,
        gau8LEDBrightness = [3, 3, 3, 3, 3, 3, 3],
        gau8RGBLEDs = [3, 3, 3, 3], u8AnimationIndex = 1\<rparr> \<and>
   Animation_Cycle 231
     \<lparr>gu16NormalTimer = 35, gu16RGBTimer = 35, gu16LastCall = 150, u8LastState = 0,
      u8RepetitionCounter = 4, u8LastStateRGB = 0, u8RepetitionCounterRGB = 4,
      gau8LEDBrightness = [3, 3, 3, 3, 3, 3, 3],
      gau8RGBLEDs = [3, 3, 3, 3], u8AnimationIndex = 1\<rparr> =
   Inr \<lparr>gu16NormalTimer = 1, gu16RGBTimer = 1, gu16LastCall = 231, u8LastState = 0,
        u8RepetitionCounter = 3, u8LastStateRGB = 0, u8RepetitionCounterRGB = 3,
        gau8LEDBrightness = [6, 6, 6, 6, 6, 6, 6],
        gau8RGBLEDs = [6, 6, 6, 6], u8AnimationIndex = 1\<rparr> \<and>
   Animation_Cycle 346
     \<lparr>gu16NormalTimer = 1, gu16RGBTimer = 1, gu16LastCall = 231, u8LastState = 0,
      u8RepetitionCounter = 3, u8LastStateRGB = 0, u8RepetitionCounterRGB = 3,
      gau8LEDBrightness = [6, 6, 6, 6, 6, 6, 6],
      gau8RGBLEDs = [6, 6, 6, 6], u8AnimationIndex = 1\<rparr> =
   Inr \<lparr>gu16NormalTimer = 1, gu16RGBTimer = 1, gu16LastCall = 346, u8LastState = 0,
        u8RepetitionCounter = 2, u8LastStateRGB = 0, u8RepetitionCounterRGB = 2,
        gau8LEDBrightness = [9, 9, 9, 9, 9, 9, 9],
        gau8RGBLEDs = [9, 9, 9, 9], u8AnimationIndex = 1\<rparr> \<and>
   Animation_Cycle 461
     \<lparr>gu16NormalTimer = 1, gu16RGBTimer = 1, gu16LastCall = 346, u8LastState = 0,
      u8RepetitionCounter = 2, u8LastStateRGB = 0, u8RepetitionCounterRGB = 2,
      gau8LEDBrightness = [9, 9, 9, 9, 9, 9, 9],
      gau8RGBLEDs = [9, 9, 9, 9], u8AnimationIndex = 1\<rparr> =
   Inr \<lparr>gu16NormalTimer = 1, gu16RGBTimer = 1, gu16LastCall = 461, u8LastState = 0,
        u8RepetitionCounter = 1, u8LastStateRGB = 0, u8RepetitionCounterRGB = 1,
        gau8LEDBrightness = [12, 12, 12, 12, 12, 12, 12],
        gau8RGBLEDs = [12, 12, 12, 12], u8AnimationIndex = 1\<rparr> \<and>
   Animation_Cycle 576
     \<lparr>gu16NormalTimer = 1, gu16RGBTimer = 1, gu16LastCall = 461, u8LastState = 0,
      u8RepetitionCounter = 1, u8LastStateRGB = 0, u8RepetitionCounterRGB = 1,
      gau8LEDBrightness = [12, 12, 12, 12, 12, 12, 12],
      gau8RGBLEDs = [12, 12, 12, 12], u8AnimationIndex = 1\<rparr> =
   Inr \<lparr>gu16NormalTimer = 116, gu16RGBTimer = 116, gu16LastCall = 576, u8LastState = 1,
        u8RepetitionCounter = 0, u8LastStateRGB = 1, u8RepetitionCounterRGB = 0,
        gau8LEDBrightness = [15, 15, 15, 15, 15, 15, 15],
        gau8RGBLEDs = [15, 15, 15, 15], u8AnimationIndex = 1\<rparr> \<and>
   Animation_Cycle 600
     \<lparr>gu16NormalTimer = 116, gu16RGBTimer = 116, gu16LastCall = 576, u8LastState = 1,
      u8RepetitionCounter = 0, u8LastStateRGB = 1, u8RepetitionCounterRGB = 0,
      gau8LEDBrightness = [15, 15, 15, 15, 15, 15, 15],
      gau8RGBLEDs = [15, 15, 15, 15], u8AnimationIndex = 1\<rparr> =
   Inr \<lparr>gu16NormalTimer = 140, gu16RGBTimer = 140, gu16LastCall = 600, u8LastState = 1,
        u8RepetitionCounter = 0, u8LastStateRGB = 1, u8RepetitionCounterRGB = 0,
        gau8LEDBrightness = [15, 15, 15, 15, 15, 15, 15],
        gau8RGBLEDs = [15, 15, 15, 15], u8AnimationIndex = 1\<rparr>"
    using run by (simp add: All_less_Suc)
  from calls n rg show ?thesis by blast
qed

section \<open>The brightness arrays stay in range\<close>

lemma Saturate_snd_le: "snd (SaturateBrightness v) \<le> 15"
proof -
  have "uint v < 256" using uint_lt2p [of v] by simp
  then show ?thesis
    by (auto simp: SaturateBrightness_def sint_u8_cases word_le_def split: if_splits)
qed

lemma carry_length [simp]: "length (carry f t b) = length b"
  by (simp add: carry_def Let_def case_prod_beta)

lemma carry_from: "f < length b \<Longrightarrow> f \<noteq> t \<Longrightarrow> carry f t b ! f \<le> 15"
  by (simp add: carry_def Let_def case_prod_beta Saturate_snd_le)

lemma carry_other: "j \<noteq> f \<Longrightarrow> j \<noteq> t \<Longrightarrow> carry f t b ! j = b ! j"
  by (simp add: carry_def Let_def case_prod_beta)

lemma add_change_length [simp]: "length (add_change ops idx b) = length b"
  by (simp add: add_change_def)

lemma add_change_other: "j \<noteq> idx \<Longrightarrow> add_change ops idx b ! j = b ! j"
  by (simp add: add_change_def)

lemma add_saturate_length [simp]: "length (add_saturate ops idx b) = length b"
  by (simp add: add_saturate_def Let_def)

lemma add_saturate_at: "idx < length b \<Longrightarrow> add_saturate ops idx b ! idx \<le> 15"
  by (simp add: add_saturate_def Let_def Saturate_snd_le)

lemma add_saturate_other: "j \<noteq> idx \<Longrightarrow> add_saturate ops idx b ! j = b ! j"
  by (simp add: add_saturate_def Let_def add_change_def)

text \<open>A chain of carries upwards, from \<open>i\<close> to \<open>m\<close>.\<close>

lemma chain_up:
  assumes "m < length b"
  shows "length (fold (\<lambda>inner. carry inner (inner + 1)) [i..<m] b) = length b \<and>
         (\<forall>j. i \<le> j \<and> j < m \<longrightarrow> fold (\<lambda>inner. carry inner (inner + 1)) [i..<m] b ! j \<le> 15) \<and>
         (\<forall>j<i. fold (\<lambda>inner. carry inner (inner + 1)) [i..<m] b ! j = b ! j)"
  using assms
proof (induction m)
  case 0
  then show ?case by simp
next
  case (Suc m)
  let ?c = "fold (\<lambda>inner. carry inner (inner + 1)) [i..<m] b"
  from Suc have ih: "length ?c = length b"
    "\<And>j. i \<le> j \<Longrightarrow> j < m \<Longrightarrow> ?c ! j \<le> 15" "\<And>j. j < i \<Longrightarrow> ?c ! j = b ! j"
    by simp_all
  show ?case
  proof (cases "i \<le> m")
    case False
    then show ?thesis by auto
  next
    case True
    then have f: "fold (\<lambda>inner. carry inner (inner + 1)) [i..<Suc m] b = carry m (m + 1) ?c"
      by simp
    have "carry m (m + 1) ?c ! j \<le> 15" if "i \<le> j" "j < Suc m" for j
    proof (cases "j = m")
      case True
      with Suc.prems ih(1) show ?thesis by (simp add: carry_from)
    next
      case False
      with that ih(2) [of j] show ?thesis by (simp add: carry_other)
    qed
    moreover have "carry m (m + 1) ?c ! j = b ! j" if "j < i" for j
      using that True ih(3) [of j] by (simp add: carry_other)
    ultimately show ?thesis using ih(1) by (simp add: f)
  qed
qed

text \<open>The outer loop of the left side of USOURCE, through its first \<open>k\<close> rounds.\<close>

lemma outer_up:
  assumes "m < length b" and "k \<le> m"
  shows "length (fold (\<lambda>idx b. fold (\<lambda>inner. carry inner (inner + 1)) [idx..<m]
                   (add_change ops idx b)) [0..<k] b) = length b \<and>
         (\<forall>j<k. fold (\<lambda>idx b. fold (\<lambda>inner. carry inner (inner + 1)) [idx..<m]
                   (add_change ops idx b)) [0..<k] b ! j \<le> 15)"
  using assms(2)
proof (induction k)
  case 0
  then show ?case by simp
next
  case (Suc k)
  let ?o = "fold (\<lambda>idx b. fold (\<lambda>inner. carry inner (inner + 1)) [idx..<m]
                   (add_change ops idx b)) [0..<k] b"
  let ?a = "add_change ops k ?o"
  from Suc have ih: "length ?o = length b" "\<And>j. j < k \<Longrightarrow> ?o ! j \<le> 15" by simp_all
  from assms(1) ih(1) have m: "m < length ?a" by simp
  note c = chain_up [OF m, of k]
  have "fold (\<lambda>inner. carry inner (inner + 1)) [k..<m] ?a ! j \<le> 15" if "j < Suc k" for j
  proof (cases "j = k")
    case True
    with c Suc.prems show ?thesis by simp
  next
    case False
    with that have "j < k" by simp
    with c ih(2) [of j] show ?thesis by (simp add: add_change_other)
  qed
  with c ih(1) show ?case by simp
qed

text \<open>A chain of carries downwards, from \<open>idx\<close> to 1.\<close>

lemma chain_down:
  assumes "idx < length b"
  shows "length (fold (\<lambda>inner. carry inner (inner - 1)) (rev [1..<idx + 1]) b) = length b \<and>
         (\<forall>j. 1 \<le> j \<and> j \<le> idx \<longrightarrow>
            fold (\<lambda>inner. carry inner (inner - 1)) (rev [1..<idx + 1]) b ! j \<le> 15) \<and>
         (\<forall>j>idx. fold (\<lambda>inner. carry inner (inner - 1)) (rev [1..<idx + 1]) b ! j = b ! j)"
  using assms
proof (induction idx arbitrary: b)
  case 0
  then show ?case by simp
next
  case (Suc idx)
  let ?b = "carry (Suc idx) idx b"
  have f: "fold (\<lambda>inner. carry inner (inner - 1)) (rev [1..<Suc idx + 1]) b =
           fold (\<lambda>inner. carry inner (inner - 1)) (rev [1..<idx + 1]) ?b"
    by simp
  from Suc.prems have "idx < length ?b" by simp
  note ih = Suc.IH [OF this]
  have "fold (\<lambda>inner. carry inner (inner - 1)) (rev [1..<idx + 1]) ?b ! j \<le> 15"
    if "1 \<le> j" "j \<le> Suc idx" for j
  proof (cases "j = Suc idx")
    case True
    with ih have "fold (\<lambda>inner. carry inner (inner - 1)) (rev [1..<idx + 1]) ?b ! j = ?b ! j"
      by simp
    with True Suc.prems show ?thesis by (simp add: carry_from)
  next
    case False
    with that ih show ?thesis by simp
  qed
  moreover have "fold (\<lambda>inner. carry inner (inner - 1)) (rev [1..<idx + 1]) ?b ! j = b ! j"
    if "j > Suc idx" for j
    using that ih by (simp add: carry_other)
  ultimately show ?case using ih by (simp only: f) simp
qed

text \<open>The outer loop of the left side of DSOURCE, from index \<open>n\<close> down to 1.\<close>

lemma outer_down:
  assumes "n < length b"
  shows "length (fold (\<lambda>idx b. fold (\<lambda>inner. carry inner (inner - 1)) (rev [1..<idx + 1])
                   (add_change ops idx b)) (rev [1..<n + 1]) b) = length b \<and>
         (\<forall>j. 1 \<le> j \<and> j \<le> n \<longrightarrow>
            fold (\<lambda>idx b. fold (\<lambda>inner. carry inner (inner - 1)) (rev [1..<idx + 1])
                   (add_change ops idx b)) (rev [1..<n + 1]) b ! j \<le> 15) \<and>
         (\<forall>j>n. fold (\<lambda>idx b. fold (\<lambda>inner. carry inner (inner - 1)) (rev [1..<idx + 1])
                   (add_change ops idx b)) (rev [1..<n + 1]) b ! j = b ! j)"
  using assms
proof (induction n arbitrary: b)
  case 0
  then show ?case by simp
next
  case (Suc n)
  let ?F = "\<lambda>idx b. fold (\<lambda>inner. carry inner (inner - 1)) (rev [1..<idx + 1])
                   (add_change ops idx b)"
  let ?a = "add_change ops (Suc n) b"
  let ?b = "fold (\<lambda>inner. carry inner (inner - 1)) (rev [1..<Suc n + 1]) ?a"
  have f: "fold ?F (rev [1..<Suc n + 1]) b = fold ?F (rev [1..<n + 1]) ?b"
    by simp
  from Suc.prems have "Suc n < length ?a" by simp
  note c = chain_down [OF this]
  from c Suc.prems have "n < length ?b" by simp
  note ih = Suc.IH [OF this]
  have "fold ?F (rev [1..<n + 1]) ?b ! j \<le> 15" if "1 \<le> j" "j \<le> Suc n" for j
  proof (cases "j = Suc n")
    case True
    with ih have "fold ?F (rev [1..<n + 1]) ?b ! j = ?b ! j" by simp
    with True c show ?thesis by simp
  next
    case False
    with that ih show ?thesis by simp
  qed
  moreover have "fold ?F (rev [1..<n + 1]) ?b ! j = b ! j" if "j > Suc n" for j
  proof -
    from that ih have "fold ?F (rev [1..<n + 1]) ?b ! j = ?b ! j" by simp
    also from that c have "\<dots> = ?a ! j" by simp
    also from that have "\<dots> = b ! j" by (simp add: add_change_other)
    finally show ?thesis .
  qed
  ultimately show ?case using ih c by (simp only: f) simp
qed

lemma u8_le15: "uint (x :: U8) \<le> 15 \<longleftrightarrow> x \<le> 15"
  by (simp add: word_le_def)

lemma in_range_nth: "in_range n b \<longleftrightarrow> length b = n \<and> (\<forall>j<n. b ! j \<le> 15)"
  by (auto simp: in_range_def list_all_length u8_le15)

lemma op_ADD_range: "length b = n \<Longrightarrow> in_range n (op_ADD n ops b)"
  by (simp add: in_range_nth op_ADD_nth not_less)

lemma div_channel_length [simp]: "length (div_channel ops idx b) = length b"
  by (simp add: div_channel_def Let_def)

lemma op_DIV_length [simp]: "length (op_DIV n ops b) = length b"
  by (induction n) (simp_all add: op_DIV_def)

lemma op_DIV_Suc: "op_DIV (Suc n) ops b = div_channel ops n (op_DIV n ops b)"
  by (simp add: op_DIV_def)

lemma op_DIV_nth:
  "n \<le> length b \<Longrightarrow>
   op_DIV n ops b ! j = (if j < n \<and> ops ! j \<noteq> 0 then b ! j div ops ! j else b ! j)"
proof (induction n)
  case 0
  then show ?case by (simp add: op_DIV_def)
next
  case (Suc n)
  then have "n < length (op_DIV n ops b)" by simp
  with Suc show ?case
    by (auto simp: op_DIV_Suc div_channel_def Let_def less_Suc_eq nth_list_update)
qed

lemma u8_div_le: "(x :: U8) div y \<le> x"
  by (simp add: word_le_nat_alt unat_div_distrib div_le_dividend)

lemma op_DIV_range: "in_range n b \<Longrightarrow> in_range n (op_DIV n ops b)"
  by (auto simp: in_range_nth op_DIV_nth intro: order_trans [OF u8_div_le])

lemma list7:
  assumes "length (b :: 'a list) = 7"
  obtains a0 a1 a2 a3 a4 a5 a6 where "b = [a0, a1, a2, a3, a4, a5, a6]"
  using assms by (auto simp: eval_nat_numeral length_Suc_conv)

lemma op_RSHIFT_range: "in_range LEDS_NUM b \<Longrightarrow> in_range LEDS_NUM (op_RSHIFT b)"
proof -
  assume r: "in_range LEDS_NUM b"
  then have "length b = 7" by (simp add: in_range_def LEDS_NUM_def)
  then obtain a0 a1 a2 a3 a4 a5 a6 where b: "b = [a0, a1, a2, a3, a4, a5, a6]"
    by (rule list7)
  have "op_RSHIFT b = [a6, a0, a1, a2, a3, a4, a5]"
    by (simp add: b op_RSHIFT_def LEDS_NUM_def upt_rec)
  with r b show ?thesis by (simp add: in_range_def LEDS_NUM_def)
qed

lemma op_LSHIFT_range: "in_range LEDS_NUM b \<Longrightarrow> in_range LEDS_NUM (op_LSHIFT b)"
proof -
  assume r: "in_range LEDS_NUM b"
  then have "length b = 7" by (simp add: in_range_def LEDS_NUM_def)
  then obtain a0 a1 a2 a3 a4 a5 a6 where b: "b = [a0, a1, a2, a3, a4, a5, a6]"
    by (rule list7)
  have "op_LSHIFT b = [a1, a2, a3, a4, a5, a6, a0]"
    by (simp add: b op_LSHIFT_def LEDS_NUM_def upt_rec)
  with r b show ?thesis by (simp add: in_range_def LEDS_NUM_def)
qed


lemma op_USOURCE_range:
  assumes "length b = LEDS_NUM"
  shows "in_range LEDS_NUM (op_USOURCE ops b)"
proof -
  define b1 where "b1 = fold (\<lambda>idx b. fold (\<lambda>inner. carry inner (inner + 1)) [idx..<5]
                     (add_change ops idx b)) [0..<5] b"
  define b2 where "b2 = add_saturate ops 5 b1"
  from assms have l: "5 < length b" by (simp add: LEDS_NUM_def)
  from outer_up [OF l, of 5 ops] have o: "length b1 = length b" "\<And>j. j < 5 \<Longrightarrow> b1 ! j \<le> 15"
    by (simp_all add: b1_def)
  have u: "op_USOURCE ops b = add_saturate ops 6 b2"
    by (simp add: op_USOURCE_def RIGHT_LEDS_START_def LEDS_NUM_def b1_def b2_def)
  have l2: "length b2 = 7" using o(1) assms by (simp add: b2_def LEDS_NUM_def)
  have "add_saturate ops 6 b2 ! j \<le> 15" if j7: "j < 7" for j
  proof -
    consider (low) "j < 5" | (five) "j = 5" | (six) "j = 6" using j7 by linarith
    then show ?thesis
    proof cases
      case low
      with o(2) [of j] show ?thesis by (simp add: add_saturate_other b2_def)
    next
      case five
      from o(1) l have "5 < length b1" by simp
      from add_saturate_at [OF this, of ops] five show ?thesis
        by (simp add: add_saturate_other b2_def)
    next
      case six
      from l2 have "6 < length b2" by simp
      from add_saturate_at [OF this, of ops] six show ?thesis by simp
    qed
  qed
  with l2 show ?thesis by (simp add: u in_range_nth LEDS_NUM_def)
qed

lemma op_DSOURCE_range:
  assumes "length b = LEDS_NUM"
  shows "in_range LEDS_NUM (op_DSOURCE ops b)"
proof -
  define b1 where "b1 = fold (\<lambda>idx b. fold (\<lambda>inner. carry inner (inner - 1))
                     (rev [1..<idx + 1]) (add_change ops idx b)) (rev [1..<5 + 1]) b"
  define b2 where "b2 = add_saturate ops 0 b1"
  from assms have l: "5 < length b" by (simp add: LEDS_NUM_def)
  from outer_down [OF l, of ops] have o: "length b1 = length b"
    "\<And>j. 1 \<le> j \<Longrightarrow> j \<le> 5 \<Longrightarrow> b1 ! j \<le> 15"
    unfolding b1_def by blast+
  have "rev [1..<RIGHT_LEDS_START] = rev [1..<5 + 1]"
    by (simp add: RIGHT_LEDS_START_def)
  then have u: "op_DSOURCE ops b = add_saturate ops 6 b2"
    unfolding op_DSOURCE_def b1_def b2_def by (simp add: RIGHT_LEDS_START_def LEDS_NUM_def)
  have l2: "length b2 = 7" using o(1) assms by (simp add: b2_def LEDS_NUM_def)
  have "add_saturate ops 6 b2 ! j \<le> 15" if j7: "j < 7" for j
  proof -
    consider (zero) "j = 0" | (mid) "1 \<le> j \<and> j \<le> 5" | (six) "j = 6" using j7 by linarith
    then show ?thesis
    proof cases
      case zero
      from o(1) l have "0 < length b1" by auto
      from add_saturate_at [OF this, of ops] zero show ?thesis
        by (simp add: add_saturate_other b2_def)
    next
      case mid
      with o(2) [of j] show ?thesis by (simp add: add_saturate_other b2_def)
    next
      case six
      from l2 have "6 < length b2" by simp
      from add_saturate_at [OF this, of ops] six show ?thesis by simp
    qed
  qed
  with l2 show ?thesis by (simp add: u in_range_nth LEDS_NUM_def)
qed

lemma in_range_memcpy:
  "in_range n src \<Longrightarrow> length b = n \<Longrightarrow> in_range n (memcpy b src n)"
  by (simp add: memcpy_def in_range_def)

lemma in_range_length: "in_range n b \<Longrightarrow> length b = n"
  by (simp add: in_range_def)

lemma exec_normal_range:
  assumes "in_range LEDS_NUM b"
  shows "in_range LEDS_NUM (exec_normal ins b)"
proof -
  let ?op = "u8AnimationOpcode ins"
  let ?ops = "au8LEDBrightness ins"
  define b1 where "b1 = (if ADD AND ?op \<noteq> 0 then op_ADD LEDS_NUM ?ops b else b)"
  define b2 where "b2 = (if RSHIFT AND ?op \<noteq> 0 then op_RSHIFT b1 else b1)"
  define b3 where "b3 = (if LSHIFT AND ?op \<noteq> 0 then op_LSHIFT b2 else b2)"
  define b4 where "b4 = (if USOURCE AND ?op \<noteq> 0 then op_USOURCE ?ops b3 else b3)"
  define b5 where "b5 = (if DSOURCE AND ?op \<noteq> 0 then op_DSOURCE ?ops b4 else b4)"
  have e: "exec_normal ins b = (if DIV AND ?op \<noteq> 0 then op_DIV LEDS_NUM ?ops b5 else b5)"
    by (simp add: exec_normal_def Let_def b1_def b2_def b3_def b4_def b5_def)
  have "in_range LEDS_NUM b1"
    using assms by (simp add: b1_def op_ADD_range in_range_length)
  then have "in_range LEDS_NUM b2" by (simp add: b2_def op_RSHIFT_range)
  then have "in_range LEDS_NUM b3" by (simp add: b3_def op_LSHIFT_range)
  then have "in_range LEDS_NUM b4" by (simp add: b4_def op_USOURCE_range in_range_length)
  then have "in_range LEDS_NUM b5" by (simp add: b5_def op_DSOURCE_range in_range_length)
  then show ?thesis by (simp add: e op_DIV_range)
qed

lemma exec_rgb_range:
  assumes "in_range NUM_RGBLED_COLORS b"
  shows "in_range NUM_RGBLED_COLORS (exec_rgb ins b)"
proof -
  from assms have l: "length b = NUM_RGBLED_COLORS" by (simp add: in_range_def)
  with assms show ?thesis
    by (simp add: exec_rgb_def Let_def op_ADD_range op_DIV_range)
qed

lemma apply_normal_range:
  assumes "normal_ok ins" and "brightness_ok s"
  shows "brightness_ok (apply_normal ins st s)"
proof -
  from assms(2) have n: "in_range LEDS_NUM (gau8LEDBrightness s)"
    and r: "in_range NUM_RGBLED_COLORS (gau8RGBLEDs s)"
    by (simp_all add: brightness_ok_def)
  have "in_range LEDS_NUM (gau8LEDBrightness (apply_normal ins st s))"
  proof (cases "LOAD = u8AnimationOpcode ins")
    case True
    with assms(1) have "in_range LEDS_NUM (au8LEDBrightness ins)"
      by (simp add: normal_ok_def)
    moreover from n have "length (gau8LEDBrightness s) = LEDS_NUM"
      by (simp add: in_range_def)
    ultimately have "in_range LEDS_NUM
        (memcpy (gau8LEDBrightness s) (au8LEDBrightness ins) LEDS_NUM)"
      by (rule in_range_memcpy)
    with True show ?thesis
      by (simp add: apply_normal_def)
  next
    case False
    with exec_normal_range [OF n] show ?thesis
      by (simp add: apply_normal_def Let_def)
  qed
  with r show ?thesis by (simp add: brightness_ok_def apply_normal_frame)
qed

lemma apply_rgb_range:
  assumes "rgb_ok ins" and "brightness_ok s"
  shows "brightness_ok (apply_rgb ins st s)"
proof -
  from assms(2) have n: "in_range LEDS_NUM (gau8LEDBrightness s)"
    and r: "in_range NUM_RGBLED_COLORS (gau8RGBLEDs s)"
    by (simp_all add: brightness_ok_def)
  have "in_range NUM_RGBLED_COLORS (gau8RGBLEDs (apply_rgb ins st s))"
  proof (cases "LOAD = u8AnimationOpcodeRGB ins")
    case True
    with assms(1) have "in_range NUM_RGBLED_COLORS (au8RGBLEDBrightness ins)"
      by (simp add: rgb_ok_def)
    moreover from r have "length (gau8RGBLEDs s) = NUM_RGBLED_COLORS"
      by (simp add: in_range_def)
    ultimately have "in_range NUM_RGBLED_COLORS
        (memcpy (gau8RGBLEDs s) (au8RGBLEDBrightness ins) NUM_RGBLED_COLORS)"
      by (rule in_range_memcpy)
    with True show ?thesis
      by (simp add: apply_rgb_def)
  next
    case False
    with exec_rgb_range [OF r] show ?thesis
      by (simp add: apply_rgb_def Let_def)
  qed
  with n show ?thesis by (simp add: brightness_ok_def apply_rgb_frame)
qed

lemma brightness_ok_timers [simp]:
  "brightness_ok (s\<lparr>gu16NormalTimer := x\<rparr>) = brightness_ok s"
  "brightness_ok (s\<lparr>gu16RGBTimer := y\<rparr>) = brightness_ok s"
  "brightness_ok (s\<lparr>gu16LastCall := z\<rparr>) = brightness_ok s"
  "brightness_ok (s\<lparr>u8AnimationIndex := i\<rparr>) = brightness_ok s"
  "brightness_ok (s\<lparr>u8LastState := l\<rparr>) = brightness_ok s"
  "brightness_ok (s\<lparr>u8LastStateRGB := l\<rparr>) = brightness_ok s"
  "brightness_ok (s\<lparr>u8RepetitionCounter := c\<rparr>) = brightness_ok s"
  "brightness_ok (s\<lparr>u8RepetitionCounterRGB := c\<rparr>) = brightness_ok s"
  by (simp_all add: brightness_ok_def)

lemma cycle_normal_range:
  assumes "animation_ok a" and "brightness_ok s" and "cycle_normal a s = Inr s1"
  shows "brightness_ok s1"
proof -
  have ok: "normal_ok (psInstructionsNormal a ! k)" if "k < length (psInstructionsNormal a)" for k
    using assms(1) that by (simp add: animation_ok_def list_all_length)
  from assms(3,2) show ?thesis
    by (auto simp: cycle_normal_def apply_normal_range ok split: sum.splits if_splits)
qed

lemma cycle_rgb_range:
  assumes "animation_ok a" and "brightness_ok s" and "cycle_rgb a s = Inr s1"
  shows "brightness_ok s1"
proof -
  have ok: "rgb_ok (psInstructionsRGB a ! k)" if "k < length (psInstructionsRGB a)" for k
    using assms(1) that by (simp add: animation_ok_def list_all_length)
  from assms(3,2) show ?thesis
    by (auto simp: cycle_rgb_def apply_rgb_range ok split: sum.splits if_splits)
qed

lemma list_all_replicate: "list_all P (replicate n x) \<longleftrightarrow> n = 0 \<or> P x"
  by (induction n) auto

lemma catalog_ok: "list_all animation_ok gasAnimations"
  by (simp add: list_all_replicate animation_ok_def normal_ok_def rgb_ok_def in_range_def gasAnimations_def
        catalog_defs opcode_defs LEDS_NUM_def NUM_RGBLED_COLORS_def)

lemma Animation_Cycle_range:
  assumes "brightness_ok s" and "Animation_Cycle now s = Inr s1"
  shows "brightness_ok s1"
proof (cases "now = gu16LastCall s")
  case True
  with assms show ?thesis by (simp add: Animation_Cycle_def)
next
  case False
  let ?s1 = "s\<lparr>gu16NormalTimer := gu16NormalTimer s + (now - gu16LastCall s),
                gu16RGBTimer := gu16RGBTimer s + (now - gu16LastCall s)\<rparr>"
  let ?s2 = "if NUM_ANIMATIONS \<le> unat (u8AnimationIndex ?s1)
             then ?s1\<lparr>u8AnimationIndex := 0\<rparr> else ?s1"
  let ?a = "gasAnimations ! unat (u8AnimationIndex ?s2)"
  have "unat (u8AnimationIndex ?s2) < length gasAnimations"
    by (simp add: gasAnimations_def NUM_ANIMATIONS_def)
  with catalog_ok have a: "animation_ok ?a" by (simp add: list_all_length)
  have b2: "brightness_ok ?s2" using assms(1) by simp
  from assms(2) False obtain s3 s4 where 3: "cycle_normal ?a ?s2 = Inr s3"
    and 4: "cycle_rgb ?a s3 = Inr s4" and 5: "s1 = s4\<lparr>gu16LastCall := now\<rparr>"
    by (auto simp: Animation_Cycle_def Let_def split: sum.splits)
  from cycle_rgb_range [OF a cycle_normal_range [OF a b2 3] 4] 5 show ?thesis by simp
qed

lemma run_range:
  assumes "brightness_ok s" and "run calls s = Inr s1"
  shows "brightness_ok s1"
  using assms
proof (induction calls s rule: run.induct)
  case (1 s)
  then show ?case by simp
next
  case (2 now cs s)
  then show ?case by (auto split: sum.splits dest: Animation_Cycle_range)
next
  case (3 idx cs s)
  moreover have "brightness_ok (Animation_Set idx s) = brightness_ok s"
    by (simp add: Animation_Set_def)
  ultimately show ?case by simp
qed

lemma init_globals_range: "brightness_ok (init_globals now idx)"
  by (simp add: brightness_ok_def in_range_def init_globals_def list_all_length)

text \<open>
  In every state that a run of calls (Animation_Cycle with any times, Animation_Set with
  any indices) reaches from the state after initialisation, with the shipped catalog,
  whenever a call of Animation_Cycle returns without reading behind the RGB array, the
  array of the normal LEDs has its 7 elements and the array of the RGB LED its 4 elements
  in \<open>[0, 15]\<close>.
\<close>

lemma brightness_range_kept:
  assumes "run calls (init_globals t0 idx) = Inr s" and "Animation_Cycle now s = Inr s1"
  shows "length (gau8LEDBrightness s1) = LEDS_NUM \<and>
         length (gau8RGBLEDs s1) = NUM_RGBLED_COLORS \<and>
         (\<forall>x \<in> set (gau8LEDBrightness s1). 0 \<le> uint x \<and> uint x \<le> 15) \<and>
         (\<forall>x \<in> set (gau8RGBLEDs s1). 0 \<le> uint x \<and> uint x \<le> 15)"
proof -
  from run_range [OF init_globals_range assms(1)] have "brightness_ok s" .
  from Animation_Cycle_range [OF this assms(2)] show ?thesis
    by (simp add: brightness_ok_def in_range_def list_all_iff)
qed


end
